theory Spec2Isabelle
  imports Complex_Main
begin

section \<open>JavaScript values\<close>

text \<open>
  A JavaScript string is a sequence of UTF-16 code units; a code unit is a natural number
  below 65536. An HTTP header value reaches the handler decoded as Latin-1, one code unit
  (below 256) per byte.
\<close>

type_synonym jsstring = "nat list"

definition js :: "string \<Rightarrow> jsstring" where
  "js s = map of_char s"

text \<open>
  The numbers \<open>JSON.parse\<close> can produce are the finite doubles and the two infinities.
  \<open>Fin r\<close> is the double whose mathematical value is \<open>r\<close>; the double \<open>-0\<close> is
  identified with \<open>0\<close>, which neither truthiness nor the comparison of \<open>Set\<close> tells
  apart.
\<close>

datatype jsnum = Fin rat | PosInf | NegInf

datatype jsval =
    JUndefined
  | JNull
  | JBool bool
  | JNum jsnum
  | JStr jsstring
  | JArr "jsval list"
  | JObj "(jsstring \<times> jsval) list"

text \<open>A thrown value: the three error classes that occur, each with its \<open>message\<close>.\<close>

datatype js_error = TypeError jsstring | SyntaxError jsstring | Error jsstring

fun message :: "js_error \<Rightarrow> jsstring" where
  "message (TypeError m) = m"
| "message (SyntaxError m) = m"
| "message (Error m) = m"

text \<open>\<open>!v\<close> is \<open>\<not> truthy v\<close>.\<close>

fun truthy :: "jsval \<Rightarrow> bool" where
  "truthy JUndefined = False"
| "truthy JNull = False"
| "truthy (JBool b) = b"
| "truthy (JNum n) = (n \<noteq> Fin 0)"
| "truthy (JStr s) = (s \<noteq> [])"
| "truthy (JArr _) = True"
| "truthy (JObj _) = True"

fun nullish :: "jsval \<Rightarrow> bool" where
  "nullish JUndefined = True"
| "nullish JNull = True"
| "nullish _ = False"

definition type_name :: "jsval \<Rightarrow> jsstring" where
  "type_name v = (if v = JNull then js ''null'' else js ''undefined'')"

text \<open>
  Property read \<open>v.k\<close>, for the property names the program reads (\<open>payload\<close>,
  \<open>signature\<close>, \<open>authorization\<close>, \<open>nonce\<close>, \<open>transactionHash\<close>, \<open>valid\<close>,
  \<open>text\<close>, \<open>model\<close>, \<open>temperature\<close>): none of them is a property of a built-in
  prototype, so a primitive, an array or an object without the key gives \<open>undefined\<close>.
  Reading a property of \<open>null\<close> or \<open>undefined\<close> throws a TypeError.
\<close>

fun get_prop :: "jsval \<Rightarrow> jsstring \<Rightarrow> js_error + jsval" where
  "get_prop (JObj ps) k = Inr (case map_of ps k of None \<Rightarrow> JUndefined | Some v \<Rightarrow> v)"
| "get_prop v k =
     (if nullish v
      then Inl (TypeError (js ''Cannot read properties of '' @ type_name v @ js '' (reading '' @ [39] @ k @ [39] @ js '')''))
      else Inr JUndefined)"

text \<open>Optional chaining \<open>v?.k\<close>.\<close>

definition opt_prop :: "jsval \<Rightarrow> jsstring \<Rightarrow> jsval" where
  "opt_prop v k = (case get_prop v k of Inl _ \<Rightarrow> JUndefined | Inr x \<Rightarrow> x)"

text \<open>Writing a property keeps the position of an existing key.\<close>

fun obj_set :: "(jsstring \<times> jsval) list \<Rightarrow> jsstring \<Rightarrow> jsval \<Rightarrow> (jsstring \<times> jsval) list" where
  "obj_set [] k v = [(k, v)]"
| "obj_set (p # ps) k v = (if fst p = k then (k, v) # ps else p # obj_set ps k v)"

section \<open>JSON.parse\<close>

subsection \<open>Numbers: the literal's value, rounded to the nearest double\<close>

definition is_digit :: "nat \<Rightarrow> bool" where
  "is_digit c = (48 \<le> c \<and> c \<le> 57)"

definition hexval :: "nat \<Rightarrow> nat option" where
  "hexval c =
     (if 48 \<le> c \<and> c \<le> 57 then Some (c - 48)
      else if 97 \<le> c \<and> c \<le> 102 then Some (c - 87)
      else if 65 \<le> c \<and> c \<le> 70 then Some (c - 55)
      else None)"

function bitlen :: "int \<Rightarrow> int" where
  "bitlen n = (if n \<le> 0 then 0 else 1 + bitlen (n div 2))"
  by pat_completeness auto
termination
  by (relation "measure nat") auto

declare bitlen.simps [simp del]

definition pow2 :: "int \<Rightarrow> rat" where
  "pow2 e = (if 0 \<le> e then 2 ^ nat e else 1 / 2 ^ nat (- e))"

definition round_half_even :: "rat \<Rightarrow> int" where
  "round_half_even x =
     (let f = \<lfloor>x\<rfloor>; d = x - of_int f
      in if d < 1 / 2 then f else if 1 / 2 < d then f + 1 else if even f then f else f + 1)"

text \<open>\<open>ilog2 x\<close> is the exponent \<open>e\<close> with \<open>2^e \<le> x < 2^(e+1)\<close>, for \<open>x > 0\<close>.\<close>

definition ilog2 :: "rat \<Rightarrow> int" where
  "ilog2 x =
     (let (p, q) = quotient_of x; e0 = bitlen p - bitlen q
      in if pow2 e0 \<le> x then e0 else e0 - 1)"

text \<open>
  Round to nearest, ties to even, with 53 bits of precision, gradual underflow below
  \<open>2^-1022\<close> and overflow (\<open>None\<close>) from \<open>2^1024\<close>.
\<close>

definition double_of_pos :: "rat \<Rightarrow> rat option" where
  "double_of_pos x =
     (let qe = max (ilog2 x) (- 1022) - 52;
          v = of_int (round_half_even (x / pow2 qe)) * pow2 qe
      in if pow2 1024 \<le> v then None else Some v)"

definition double_of_rat :: "rat \<Rightarrow> jsnum" where
  "double_of_rat x =
     (if x = 0 then Fin 0
      else if 0 < x then (case double_of_pos x of None \<Rightarrow> PosInf | Some v \<Rightarrow> Fin v)
      else (case double_of_pos (- x) of None \<Rightarrow> NegInf | Some v \<Rightarrow> Fin (- v)))"

fun digits_val :: "nat list \<Rightarrow> int \<Rightarrow> int" where
  "digits_val [] acc = acc"
| "digits_val (c # cs) acc = digits_val cs (10 * acc + int (c - 48))"

text \<open>
  The longest prefix of the text that is a JSON number
  \<open>-? (0 | [1-9][0-9]*) (. [0-9]+)? ([eE] [+-]? [0-9]+)?\<close>, with its value and its length.
\<close>

definition scan_number :: "nat list \<Rightarrow> (jsnum \<times> nat) option" where
  "scan_number cs =
     (let neg = (case cs of [] \<Rightarrow> False | c # _ \<Rightarrow> c = 45);
          r1 = (if neg then tl cs else cs);
          ds = takeWhile is_digit r1;
          ip = (if ds \<noteq> [] \<and> hd ds = 48 then [48] else ds);
          r2 = drop (length ip) r1;
          fs = (case r2 of [] \<Rightarrow> [] | c # r \<Rightarrow> if c = 46 then takeWhile is_digit r else []);
          r3 = (if fs = [] then r2 else drop (Suc (length fs)) r2);
          (esign, es) =
             (case r3 of
                [] \<Rightarrow> (False, [])
              | c # r \<Rightarrow>
                  if c = 101 \<or> c = 69 then
                    (case r of
                       [] \<Rightarrow> (False, [])
                     | s # r' \<Rightarrow>
                         if s = 45 then (True, takeWhile is_digit r')
                         else if s = 43 then (False, takeWhile is_digit r')
                         else (False, takeWhile is_digit r))
                  else (False, []));
          elen = (if es = [] then 0
                  else (case r3 of
                          _ # s # _ \<Rightarrow> if s = 45 \<or> s = 43 then 2 + length es else 1 + length es
                        | _ \<Rightarrow> 0));
          mant = of_int (digits_val ip 0) + of_int (digits_val fs 0) / 10 ^ length fs;
          ex = digits_val es 0;
          mag = mant * (if esign then 1 / 10 ^ nat ex else 10 ^ nat ex);
          used = (if neg then 1 else 0) + length ip + (if fs = [] then 0 else Suc (length fs)) + elen
      in if ip = [] then None
         else Some (double_of_rat (if neg then - mag else mag), used))"

subsection \<open>Strings\<close>

fun hex_digits_val :: "nat list \<Rightarrow> nat \<Rightarrow> nat option" where
  "hex_digits_val [] acc = Some acc"
| "hex_digits_val (c # cs) acc =
     (case hexval c of None \<Rightarrow> None | Some d \<Rightarrow> hex_digits_val cs (16 * acc + d))"

definition hex4 :: "nat list \<Rightarrow> nat option" where
  "hex4 cs = (if length cs = 4 then hex_digits_val cs 0 else None)"

definition simple_escape :: "nat \<Rightarrow> nat option" where
  "simple_escape e =
     (if e = 34 then Some 34 else if e = 92 then Some 92 else if e = 47 then Some 47
      else if e = 98 then Some 8 else if e = 102 then Some 12 else if e = 110 then Some 10
      else if e = 114 then Some 13 else if e = 116 then Some 9 else None)"

text \<open>
  The text after an opening quote: the string's code units, and how many code units of
  the text it takes up to and including the closing quote.
\<close>

fun scan_string :: "nat list \<Rightarrow> (jsstring \<times> nat) option" where
  "scan_string [] = None"
| "scan_string (c # cs) =
    (if c = 34 then Some ([], 1)
     else if c = 92 then
       (case cs of
          [] \<Rightarrow> None
        | e # cs' \<Rightarrow>
            if e = 117 then
              (case hex4 (take 4 cs') of
                 None \<Rightarrow> None
               | Some u \<Rightarrow>
                   (case scan_string (drop 4 cs') of
                      None \<Rightarrow> None
                    | Some (s, k) \<Rightarrow> Some (u # s, k + 6)))
            else
              (case simple_escape e of
                 None \<Rightarrow> None
               | Some x \<Rightarrow>
                   (case scan_string cs' of
                      None \<Rightarrow> None
                    | Some (s, k) \<Rightarrow> Some (x # s, k + 2))))
     else if c < 32 then None
     else (case scan_string cs of None \<Rightarrow> None | Some (s, k) \<Rightarrow> Some (c # s, k + 1)))"

subsection \<open>Tokens\<close>

datatype token = TLBrace | TRBrace | TLBrack | TRBrack | TColon | TComma | TVal jsval

definition is_ws :: "nat \<Rightarrow> bool" where
  "is_ws c = (c = 32 \<or> c = 9 \<or> c = 10 \<or> c = 13)"

fun lex :: "nat list \<Rightarrow> token list option" where
  "lex [] = Some []"
| "lex (c # cs) =
    (if is_ws c then lex cs
     else if c = 123 then (case lex cs of None \<Rightarrow> None | Some ts \<Rightarrow> Some (TLBrace # ts))
     else if c = 125 then (case lex cs of None \<Rightarrow> None | Some ts \<Rightarrow> Some (TRBrace # ts))
     else if c = 91 then (case lex cs of None \<Rightarrow> None | Some ts \<Rightarrow> Some (TLBrack # ts))
     else if c = 93 then (case lex cs of None \<Rightarrow> None | Some ts \<Rightarrow> Some (TRBrack # ts))
     else if c = 58 then (case lex cs of None \<Rightarrow> None | Some ts \<Rightarrow> Some (TColon # ts))
     else if c = 44 then (case lex cs of None \<Rightarrow> None | Some ts \<Rightarrow> Some (TComma # ts))
     else if c = 34 then
       (case scan_string cs of
          None \<Rightarrow> None
        | Some (s, k) \<Rightarrow>
            (case lex (drop k cs) of None \<Rightarrow> None | Some ts \<Rightarrow> Some (TVal (JStr s) # ts)))
     else if c = 45 \<or> is_digit c then
       (case scan_number (c # cs) of
          None \<Rightarrow> None
        | Some (n, k) \<Rightarrow>
            (case lex (drop (k - 1) cs) of None \<Rightarrow> None | Some ts \<Rightarrow> Some (TVal (JNum n) # ts)))
     else if take 4 (c # cs) = js ''true'' then
       (case lex (drop 3 cs) of None \<Rightarrow> None | Some ts \<Rightarrow> Some (TVal (JBool True) # ts))
     else if take 5 (c # cs) = js ''false'' then
       (case lex (drop 4 cs) of None \<Rightarrow> None | Some ts \<Rightarrow> Some (TVal (JBool False) # ts))
     else if take 4 (c # cs) = js ''null'' then
       (case lex (drop 3 cs) of None \<Rightarrow> None | Some ts \<Rightarrow> Some (TVal JNull # ts))
     else None)"

subsection \<open>The grammar, as a pushdown automaton over the tokens\<close>

datatype frame =
    FArr "jsval list"
  | FObj "(jsstring \<times> jsval) list"
  | FKey "(jsstring \<times> jsval) list" jsstring

datatype phase = PValue | PValueOrClose | PKeyOrClose | PKey | PColon | PAfter | PDone jsval

text \<open>A finished value goes into the container on top of the stack.\<close>

fun push :: "jsval \<Rightarrow> frame list \<Rightarrow> (frame list \<times> phase) option" where
  "push v [] = Some ([], PDone v)"
| "push v (FArr vs # st) = Some (FArr (v # vs) # st, PAfter)"
| "push v (FKey ms k # st) = Some (FObj (obj_set ms k v) # st, PAfter)"
| "push v (FObj ms # st) = None"

fun close_arr :: "frame list \<Rightarrow> (frame list \<times> phase) option" where
  "close_arr (FArr vs # st) = push (JArr (rev vs)) st"
| "close_arr _ = None"

fun close_obj :: "frame list \<Rightarrow> (frame list \<times> phase) option" where
  "close_obj (FObj ms # st) = push (JObj ms) st"
| "close_obj _ = None"

fun open_key :: "jsstring \<Rightarrow> frame list \<Rightarrow> (frame list \<times> phase) option" where
  "open_key k (FObj ms # st) = Some (FKey ms k # st, PColon)"
| "open_key k _ = None"

fun start_value :: "token \<Rightarrow> frame list \<Rightarrow> (frame list \<times> phase) option" where
  "start_value (TVal v) st = push v st"
| "start_value TLBrack st = Some (FArr [] # st, PValueOrClose)"
| "start_value TLBrace st = Some (FObj [] # st, PKeyOrClose)"
| "start_value _ st = None"

fun step :: "token \<Rightarrow> frame list \<times> phase \<Rightarrow> (frame list \<times> phase) option" where
  "step t (st, PValue) = start_value t st"
| "step t (st, PValueOrClose) = (if t = TRBrack then close_arr st else start_value t st)"
| "step t (st, PKeyOrClose) =
     (case t of TRBrace \<Rightarrow> close_obj st | TVal (JStr k) \<Rightarrow> open_key k st | _ \<Rightarrow> None)"
| "step t (st, PKey) = (case t of TVal (JStr k) \<Rightarrow> open_key k st | _ \<Rightarrow> None)"
| "step t (st, PColon) = (if t = TColon then Some (st, PValue) else None)"
| "step t (st, PAfter) =
     (case t of
        TComma \<Rightarrow>
          (case st of
             FArr _ # _ \<Rightarrow> Some (st, PValue)
           | FObj _ # _ \<Rightarrow> Some (st, PKey)
           | _ \<Rightarrow> None)
      | TRBrack \<Rightarrow> close_arr st
      | TRBrace \<Rightarrow> close_obj st
      | _ \<Rightarrow> None)"
| "step t (st, PDone v) = None"

fun run_tokens :: "token list \<Rightarrow> frame list \<times> phase \<Rightarrow> jsval option" where
  "run_tokens [] (st, ph) = (case ph of PDone v \<Rightarrow> (if st = [] then Some v else None) | _ \<Rightarrow> None)"
| "run_tokens (t # ts) s = (case step t s of None \<Rightarrow> None | Some s' \<Rightarrow> run_tokens ts s')"

text \<open>
  \<open>JSON.parse\<close>. The wording of the engine's SyntaxError is not modelled. The order of
  an object's properties is the order of the text; the program never enumerates a parsed
  object.
\<close>

definition JSON_parse :: "jsstring \<Rightarrow> js_error + jsval" where
  "JSON_parse text =
     (case lex text of
        None \<Rightarrow> Inl (SyntaxError (js ''Unexpected token in JSON''))
      | Some ts \<Rightarrow>
          (case run_tokens ts ([], PValue) of
             None \<Rightarrow> Inl (SyntaxError (js ''Unexpected token in JSON''))
           | Some v \<Rightarrow> Inr v))"

section \<open>JSON.stringify of strings, UTF-8 and base64\<close>

definition hexdigit :: "nat \<Rightarrow> nat" where
  "hexdigit d = (if d < 10 then 48 + d else 87 + d)"

definition unicode_escape :: "nat \<Rightarrow> jsstring" where
  "unicode_escape c =
     [92, 117, hexdigit (c div 4096 mod 16), hexdigit (c div 256 mod 16),
      hexdigit (c div 16 mod 16), hexdigit (c mod 16)]"

definition is_high_surrogate :: "nat \<Rightarrow> bool" where
  "is_high_surrogate c = (55296 \<le> c \<and> c \<le> 56319)"

definition is_low_surrogate :: "nat \<Rightarrow> bool" where
  "is_low_surrogate c = (56320 \<le> c \<and> c \<le> 57343)"

text \<open>
  The characters of a string inside the quotes that \<open>JSON.stringify\<close> writes: the short
  escapes, \<open>\u00xx\<close> for the other control characters, \<open>\udxxx\<close> for a surrogate
  without its partner, everything else as it is.
\<close>

fun quote_chars :: "jsstring \<Rightarrow> jsstring" where
  "quote_chars [] = []"
| "quote_chars (c # cs) =
     (if c = 8 then [92, 98] @ quote_chars cs
      else if c = 9 then [92, 116] @ quote_chars cs
      else if c = 10 then [92, 110] @ quote_chars cs
      else if c = 12 then [92, 102] @ quote_chars cs
      else if c = 13 then [92, 114] @ quote_chars cs
      else if c < 32 then unicode_escape c @ quote_chars cs
      else if c = 34 then [92, 34] @ quote_chars cs
      else if c = 92 then [92, 92] @ quote_chars cs
      else if is_high_surrogate c then
        (case cs of
           [] \<Rightarrow> unicode_escape c
         | d # ds \<Rightarrow>
             if is_low_surrogate d then c # d # quote_chars ds
             else unicode_escape c @ quote_chars cs)
      else if is_low_surrogate c then unicode_escape c @ quote_chars cs
      else c # quote_chars cs)"

definition quote :: "jsstring \<Rightarrow> jsstring" where
  "quote s = [34] @ quote_chars s @ [34]"

text \<open>
  \<open>Buffer.from(s)\<close>: the UTF-8 bytes of a string; a surrogate without its partner
  becomes U+FFFD.
\<close>

fun utf8_encode :: "jsstring \<Rightarrow> nat list" where
  "utf8_encode [] = []"
| "utf8_encode (c # cs) =
     (if c < 128 then c # utf8_encode cs
      else if c < 2048 then [192 + c div 64, 128 + c mod 64] @ utf8_encode cs
      else if is_high_surrogate c then
        (case cs of
           [] \<Rightarrow> [239, 191, 189]
         | d # ds \<Rightarrow>
             if is_low_surrogate d then
               (let cp = 65536 + (c - 55296) * 1024 + (d - 56320)
                in [240 + cp div 262144, 128 + cp div 4096 mod 64,
                    128 + cp div 64 mod 64, 128 + cp mod 64] @ utf8_encode ds)
             else [239, 191, 189] @ utf8_encode cs)
      else if is_low_surrogate c then [239, 191, 189] @ utf8_encode cs
      else [224 + c div 4096, 128 + c div 64 mod 64, 128 + c mod 64] @ utf8_encode cs)"

definition b64char :: "nat \<Rightarrow> nat" where
  "b64char i =
     (if i < 26 then 65 + i else if i < 52 then 97 + (i - 26)
      else if i < 62 then 48 + (i - 52) else if i = 62 then 43 else 47)"

text \<open>\<open>buf.toString('base64')\<close>: the standard alphabet, with padding.\<close>

fun base64 :: "nat list \<Rightarrow> jsstring" where
  "base64 [] = []"
| "base64 [a] = [b64char (a div 4), b64char (a mod 4 * 16), 61, 61]"
| "base64 [a, b] =
     [b64char (a div 4), b64char (a mod 4 * 16 + b div 16), b64char (b mod 16 * 4), 61]"
| "base64 (a # b # c # bs) =
     [b64char (a div 4), b64char (a mod 4 * 16 + b div 16),
      b64char (b mod 16 * 4 + c div 64), b64char (c mod 64)] @ base64 bs"

text \<open>\<open>ethers.hexlify\<close> of bytes.\<close>

definition hexlify :: "nat list \<Rightarrow> jsstring" where
  "hexlify bs = js ''0x'' @ concat (map (\<lambda>b. [hexdigit (b div 16), hexdigit (b mod 16)]) bs)"

section \<open>HTTP as the program sees it\<close>

text \<open>
  A response of \<open>fetch\<close>: its status, and its body text (reading the body can fail).
  \<open>fetch\<close> itself is the network: a function from the URL and the posted body to a
  response or a thrown error.
\<close>

record http_response =
  status :: nat
  body_text :: "js_error + jsstring"

type_synonym fetch_fn = "jsstring \<Rightarrow> jsstring \<Rightarrow> js_error + http_response"

definition ok :: "http_response \<Rightarrow> bool" where
  "ok r = (200 \<le> status r \<and> status r \<le> 299)"

definition response_json :: "http_response \<Rightarrow> js_error + jsval" where
  "response_json r = (case body_text r of Inl e \<Rightarrow> Inl e | Inr t \<Rightarrow> JSON_parse t)"

section \<open>payment-validator.ts\<close>

subsection \<open>validatePaymentFallback\<close>

text \<open>The test of \<open>/^0x[0-9a-fA-F]+$/\<close>.\<close>

definition is_hex_string :: "jsstring \<Rightarrow> bool" where
  "is_hex_string s =
     (take 2 s = js ''0x'' \<and> drop 2 s \<noteq> [] \<and> list_all (\<lambda>c. hexval c \<noteq> None) (drop 2 s))"

definition validatePaymentFallback :: "jsstring \<Rightarrow> bool" where
  "validatePaymentFallback transactionHash =
     (if transactionHash = [] \<or> length transactionHash < 10 then False
      else if take 2 transactionHash = js ''0x'' then
        (if \<not> is_hex_string transactionHash then False else True)
      else True)"

subsection \<open>validatePayment\<close>

text \<open>\<open>JSON.stringify({ transactionHash, recipient: expectedRecipient, amount: expectedAmount })\<close>\<close>

definition verify_body :: "jsstring \<Rightarrow> jsstring \<Rightarrow> jsstring \<Rightarrow> jsstring" where
  "verify_body transactionHash expectedRecipient expectedAmount =
     js ''{'' @ quote (js ''transactionHash'') @ js '':'' @ quote transactionHash @ js '','' @
     quote (js ''recipient'') @ js '':'' @ quote expectedRecipient @ js '','' @
     quote (js ''amount'') @ js '':'' @ quote expectedAmount @ js ''}''"

definition validatePayment ::
  "fetch_fn \<Rightarrow> jsstring \<Rightarrow> jsstring \<Rightarrow> jsstring \<Rightarrow> jsstring \<Rightarrow> bool" where
  "validatePayment fetch transactionHash expectedRecipient expectedAmount facilitatorUrl =
     (case fetch (facilitatorUrl @ js ''/verify'')
                 (verify_body transactionHash expectedRecipient expectedAmount) of
        Inl error \<Rightarrow> validatePaymentFallback transactionHash
      | Inr response \<Rightarrow>
          if \<not> ok response then
            (if status response = 404 \<or> status response = 501
             then validatePaymentFallback transactionHash
             else False)
          else
            (case response_json response of
               Inl error \<Rightarrow> validatePaymentFallback transactionHash
             | Inr result \<Rightarrow>
                 (case get_prop result (js ''valid'') of
                    Inl error \<Rightarrow> validatePaymentFallback transactionHash
                  | Inr valid \<Rightarrow> if valid = JBool True then True else False)))"

text \<open>
  What the facilitator said, for the statements below: it confirmed the payment (a 2xx
  response whose JSON body has \<open>valid === true\<close>), or the exchange with it failed in one
  of the ways the validator treats as "not available" (a thrown error anywhere in the
  \<open>try\<close> block, or status 404 or 501).
\<close>

definition facilitator_confirmed :: "js_error + http_response \<Rightarrow> bool" where
  "facilitator_confirmed r =
     (case r of
        Inl _ \<Rightarrow> False
      | Inr response \<Rightarrow>
          ok response \<and>
          (case response_json response of
             Inl _ \<Rightarrow> False
           | Inr result \<Rightarrow> get_prop result (js ''valid'') = Inr (JBool True)))"

definition facilitator_failed :: "js_error + http_response \<Rightarrow> bool" where
  "facilitator_failed r =
     (case r of
        Inl _ \<Rightarrow> True
      | Inr response \<Rightarrow>
          if ok response then
            (case response_json response of
               Inl _ \<Rightarrow> True
             | Inr result \<Rightarrow> (case get_prop result (js ''valid'') of Inl _ \<Rightarrow> True | Inr _ \<Rightarrow> False))
          else status response = 404 \<or> status response = 501)"

subsection \<open>validatePaymentOnChain\<close>

text \<open>
  ASCII case mapping. \<open>toLowerCase\<close> maps other letters too; the comparisons below have
  an address that \<open>ethers\<close> produced on one side, which is ASCII.
\<close>

definition lower_char :: "nat \<Rightarrow> nat" where
  "lower_char c = (if 65 \<le> c \<and> c \<le> 90 then c + 32 else c)"

definition upper_char :: "nat \<Rightarrow> nat" where
  "upper_char c = (if 97 \<le> c \<and> c \<le> 122 then c - 32 else c)"

definition toLowerCase :: "jsstring \<Rightarrow> jsstring" where
  "toLowerCase s = map lower_char s"

text \<open>
  What \<open>ethers\<close> hands over of a receipt: its status (\<open>null\<close> or a number) and its logs,
  each with the emitting contract, the topics and the data.
\<close>

record log_entry =
  address :: jsstring
  topics :: "jsstring list"
  data :: jsstring

record receipt =
  receipt_status :: "nat option"
  logs :: "log_entry list"

text \<open>
  \<open>new ethers.JsonRpcProvider(rpcUrl).getTransactionReceipt(transactionHash)\<close>: the node,
  a function from the URL and the hash to a receipt, \<open>null\<close>, or a thrown error.
\<close>

type_synonym rpc_fn = "jsstring \<Rightarrow> jsstring \<Rightarrow> js_error + receipt option"

text \<open>
  The hash function \<open>keccak256\<close> is a parameter, from bytes to bytes.
  \<open>ethers.id(text)\<close> is the hash of the text's UTF-8 bytes, as a hex string.
\<close>

type_synonym hash_fn = "nat list \<Rightarrow> nat list"

definition ethers_id :: "hash_fn \<Rightarrow> jsstring \<Rightarrow> jsstring" where
  "ethers_id keccak256 text = hexlify (keccak256 (utf8_encode text))"

text \<open>
  \<open>getChecksumAddress\<close>: each hex digit of the lower-cased address is upper-cased when
  the corresponding nibble of the hash of those digits is 8 or more.
\<close>

fun checksum_case :: "nat list \<Rightarrow> nat list \<Rightarrow> nat list" where
  "checksum_case [] ns = []"
| "checksum_case (c # cs) [] = c # cs"
| "checksum_case (c # cs) (n # ns) = (if 8 \<le> n then upper_char c else c) # checksum_case cs ns"

definition getChecksumAddress :: "hash_fn \<Rightarrow> jsstring \<Rightarrow> jsstring" where
  "getChecksumAddress keccak256 addr =
     (let chars = drop 2 (toLowerCase addr);
          hashed = keccak256 chars
      in js ''0x'' @ checksum_case chars (concat (map (\<lambda>b. [b div 16, b mod 16]) hashed)))"

text \<open>The test of \<open>/([A-F].*[a-f])|([a-f].*[A-F])/\<close> on a string without line breaks.\<close>

definition mixed_case :: "jsstring \<Rightarrow> bool" where
  "mixed_case s = ((\<exists>c \<in> set s. 65 \<le> c \<and> c \<le> 70) \<and> (\<exists>c \<in> set s. 97 \<le> c \<and> c \<le> 102))"

text \<open>
  \<open>ethers.getAddress('0x' + t)\<close>. The argument starts with \<open>0x\<close>, so it matches
  \<open>/^(0x)?[0-9a-fA-F]{40}$/\<close> exactly when \<open>t\<close> is 40 hex digits, and never matches the
  ICAP pattern.
\<close>

definition getAddress_0x :: "hash_fn \<Rightarrow> jsstring \<Rightarrow> js_error + jsstring" where
  "getAddress_0x keccak256 t =
     (let addr = js ''0x'' @ t in
      if length t = 40 \<and> list_all (\<lambda>c. hexval c \<noteq> None) t then
        (let result = getChecksumAddress keccak256 addr in
         if mixed_case addr \<and> result \<noteq> addr then Inl (TypeError (js ''bad address checksum''))
         else Inr result)
      else Inl (TypeError (js ''invalid address'')))"

text \<open>
  \<open>BigInt(s)\<close> of a string: white space trimmed; the empty string is 0; a decimal
  literal with an optional sign, or an unsigned literal with prefix \<open>0x\<close>, \<open>0o\<close> or
  \<open>0b\<close>; anything else throws a SyntaxError.
\<close>

definition is_str_ws :: "nat \<Rightarrow> bool" where
  "is_str_ws c =
     (c = 9 \<or> c = 10 \<or> c = 11 \<or> c = 12 \<or> c = 13 \<or> c = 32 \<or> c = 160 \<or> c = 5760 \<or>
      (8192 \<le> c \<and> c \<le> 8202) \<or> c = 8232 \<or> c = 8233 \<or> c = 8239 \<or> c = 8287 \<or>
      c = 12288 \<or> c = 65279)"

definition trim :: "jsstring \<Rightarrow> jsstring" where
  "trim s = rev (dropWhile is_str_ws (rev (dropWhile is_str_ws s)))"

definition digit_val :: "nat \<Rightarrow> nat option" where
  "digit_val c =
     (if 48 \<le> c \<and> c \<le> 57 then Some (c - 48)
      else if 97 \<le> c \<and> c \<le> 122 then Some (c - 87)
      else if 65 \<le> c \<and> c \<le> 90 then Some (c - 55)
      else None)"

fun radix_val :: "nat \<Rightarrow> nat list \<Rightarrow> int \<Rightarrow> int option" where
  "radix_val b [] acc = Some acc"
| "radix_val b (c # cs) acc =
     (case digit_val c of
        None \<Rightarrow> None
      | Some d \<Rightarrow> if d < b then radix_val b cs (int b * acc + int d) else None)"

definition digits_in :: "nat \<Rightarrow> nat list \<Rightarrow> int option" where
  "digits_in b ds = (if ds = [] then None else radix_val b ds 0)"

definition js_BigInt :: "jsstring \<Rightarrow> js_error + int" where
  "js_BigInt s =
     (let t = trim s;
          r = (if t = [] then Some 0
               else if take 2 t = js ''0x'' \<or> take 2 t = js ''0X'' then digits_in 16 (drop 2 t)
               else if take 2 t = js ''0o'' \<or> take 2 t = js ''0O'' then digits_in 8 (drop 2 t)
               else if take 2 t = js ''0b'' \<or> take 2 t = js ''0B'' then digits_in 2 (drop 2 t)
               else if take 1 t = js ''-'' then map_option uminus (digits_in 10 (drop 1 t))
               else if take 1 t = js ''+'' then digits_in 10 (drop 1 t)
               else digits_in 10 t)
      in case r of None \<Rightarrow> Inl (SyntaxError (js ''Cannot convert '' @ s @ js '' to a BigInt''))
                 | Some n \<Rightarrow> Inr n)"

text \<open>\<open>ethers.getAddress('0x' + log.topics[i].slice(26))\<close>; a missing topic has no \<open>slice\<close>.\<close>

definition topic_address :: "hash_fn \<Rightarrow> jsstring list \<Rightarrow> nat \<Rightarrow> js_error + jsstring" where
  "topic_address keccak256 ts i =
     (if i < length ts then getAddress_0x keccak256 (drop 26 (ts ! i))
      else Inl (TypeError (js ''Cannot read properties of undefined (reading '' @ [39] @ js ''slice'' @ [39] @ js '')'')))"

text \<open>The three values the loop body decodes from a log: \<open>from\<close>, \<open>to\<close>, \<open>amount\<close>.\<close>

definition decode_transfer :: "hash_fn \<Rightarrow> log_entry \<Rightarrow> js_error + (jsstring \<times> jsstring \<times> int)" where
  "decode_transfer keccak256 lg =
     (case topic_address keccak256 (topics lg) 1 of
        Inl e \<Rightarrow> Inl e
      | Inr from \<Rightarrow>
          (case topic_address keccak256 (topics lg) 2 of
             Inl e \<Rightarrow> Inl e
           | Inr to \<Rightarrow>
               (case js_BigInt (data lg) of
                  Inl e \<Rightarrow> Inl e
                | Inr amount \<Rightarrow> Inr (from, to, amount))))"

text \<open>The \<open>for\<close> loop over the transfer logs: \<open>Inr True\<close> is \<open>return true\<close> from inside it.\<close>

fun scan_transfer_logs ::
  "hash_fn \<Rightarrow> log_entry list \<Rightarrow> jsstring \<Rightarrow> jsstring \<Rightarrow> js_error + bool" where
  "scan_transfer_logs keccak256 [] expectedRecipient expectedAmount = Inr False"
| "scan_transfer_logs keccak256 (lg # rest) expectedRecipient expectedAmount =
     (case decode_transfer keccak256 lg of
        Inl e \<Rightarrow> Inl e
      | Inr (from, to, amount) \<Rightarrow>
          if toLowerCase to = toLowerCase expectedRecipient then
            (case js_BigInt expectedAmount of
               Inl e \<Rightarrow> Inl e
             | Inr expected \<Rightarrow>
                 if expected \<le> amount then Inr True
                 else scan_transfer_logs keccak256 rest expectedRecipient expectedAmount)
          else scan_transfer_logs keccak256 rest expectedRecipient expectedAmount)"

definition is_transfer_log :: "hash_fn \<Rightarrow> jsstring \<Rightarrow> log_entry \<Rightarrow> bool" where
  "is_transfer_log keccak256 tokenAddress lg =
     ((case topics lg of [] \<Rightarrow> False
       | t0 # _ \<Rightarrow> t0 = ethers_id keccak256 (js ''Transfer(address,address,uint256)'')) \<and>
      toLowerCase (address lg) = toLowerCase tokenAddress)"

definition validatePaymentOnChain ::
  "hash_fn \<Rightarrow> rpc_fn \<Rightarrow> jsstring \<Rightarrow> jsstring \<Rightarrow> jsstring \<Rightarrow> jsstring \<Rightarrow> jsstring \<Rightarrow> bool" where
  "validatePaymentOnChain keccak256 rpc transactionHash rpcUrl expectedRecipient expectedAmount tokenAddress =
     (case rpc rpcUrl transactionHash of
        Inl error \<Rightarrow> False
      | Inr None \<Rightarrow> False
      | Inr (Some receipt) \<Rightarrow>
          if receipt_status receipt \<noteq> Some 1 then False
          else
            (let transferLogs = filter (is_transfer_log keccak256 tokenAddress) (logs receipt) in
             if length transferLogs = 0 then False
             else
               (case scan_transfer_logs keccak256 transferLogs expectedRecipient expectedAmount of
                  Inl error \<Rightarrow> False
                | Inr found \<Rightarrow> found)))"

text \<open>
  The conditions of the statement about this validator, written from its words and not
  from the code. A log is a Transfer(address,address,uint256) log emitted by the token
  contract when its first topic is the hash of that signature and its address is the
  token's, compared without case. It is well-formed when it has the two indexed address
  topics and a number as data: \<open>getAddress\<close> takes the last 40 characters of topics 1
  and 2, and \<open>BigInt\<close> takes the data. It pays when the address in topic 2 is the
  expected recipient, compared without case, and the value in its data is at least the
  expected amount.
\<close>

definition claim_token_transfer :: "hash_fn \<Rightarrow> jsstring \<Rightarrow> log_entry \<Rightarrow> bool" where
  "claim_token_transfer keccak256 tokenAddress lg =
     (take 1 (topics lg) = [ethers_id keccak256 (js ''Transfer(address,address,uint256)'')] \<and>
      toLowerCase (address lg) = toLowerCase tokenAddress)"

definition claim_well_formed :: "hash_fn \<Rightarrow> log_entry \<Rightarrow> bool" where
  "claim_well_formed keccak256 lg =
     (3 \<le> length (topics lg) \<and>
      \<not> isl (getAddress_0x keccak256 (drop 26 (topics lg ! 1))) \<and>
      \<not> isl (getAddress_0x keccak256 (drop 26 (topics lg ! 2))) \<and>
      \<not> isl (js_BigInt (data lg)))"

definition claim_pays :: "jsstring \<Rightarrow> jsstring \<Rightarrow> log_entry \<Rightarrow> bool" where
  "claim_pays expectedRecipient expectedAmount lg =
     (toLowerCase (js ''0x'' @ drop 26 (topics lg ! 2)) = toLowerCase expectedRecipient \<and>
      (case js_BigInt (data lg) of
         Inl _ \<Rightarrow> False
       | Inr v \<Rightarrow> (case js_BigInt expectedAmount of Inl _ \<Rightarrow> False | Inr minimum \<Rightarrow> minimum \<le> v)))"

section \<open>x402-api/src/index.ts: the payment gate of POST /sentiment\<close>

text \<open>\<open>process.env\<close>, and \<open>process.env.K || d\<close>: an unset or empty variable gives the default.\<close>

type_synonym env = "jsstring \<Rightarrow> jsstring option"

definition env_or :: "env \<Rightarrow> jsstring \<Rightarrow> jsstring \<Rightarrow> jsstring" where
  "env_or env k d = (case env k of None \<Rightarrow> d | Some v \<Rightarrow> if v = [] then d else v)"

definition env_val :: "env \<Rightarrow> jsstring \<Rightarrow> jsval" where
  "env_val env k = (case env k of None \<Rightarrow> JUndefined | Some v \<Rightarrow> JStr v)"

text \<open>
  What the handler reads of a request: the \<open>x-payment\<close> header and the body that
  \<open>express.json()\<close> parsed.
\<close>

record request =
  x_payment :: "jsstring option"
  body :: jsval

text \<open>
  What the handler sends: \<open>res.status(c).json(b)\<close> sets the status and the body, and
  Express sets the content type of a JSON body.
\<close>

record response =
  res_status :: nat
  content_type :: jsstring
  res_body :: jsval

definition res_json :: "nat \<Rightarrow> jsval \<Rightarrow> response" where
  "res_json c b =
     \<lparr>res_status = c, content_type = js ''application/json; charset=utf-8'', res_body = b\<rparr>"

text \<open>
  The calls that leave the process while a request is handled, in order: the POST of the
  signed authorization to the facilitator URL, and the call of \<open>analyzeSentiment\<close>.
\<close>

datatype event =
    FacilitatorCall "jsstring option" jsval
  | ResourceCall jsval jsval jsval

fun is_resource_call :: "event \<Rightarrow> bool" where
  "is_resource_call (ResourceCall _ _ _) = True"
| "is_resource_call _ = False"

text \<open>
  \<open>processedPayments\<close>, a \<open>Set\<close>. \<open>has\<close> compares primitives by value; an array or an
  object is compared by identity, and each request parses its header into fresh objects,
  so such a value is never found.
\<close>

fun is_primitive :: "jsval \<Rightarrow> bool" where
  "is_primitive (JArr _) = False"
| "is_primitive (JObj _) = False"
| "is_primitive _ = True"

definition set_has :: "jsval set \<Rightarrow> jsval \<Rightarrow> bool" where
  "set_has s v = (is_primitive v \<and> v \<in> s)"

definition set_add :: "jsval set \<Rightarrow> jsval \<Rightarrow> jsval set" where
  "set_add s v = insert v s"

definition payment_method :: "env \<Rightarrow> jsval" where
  "payment_method env =
     JObj [(js ''scheme'', JStr (js ''eip3009'')),
           (js ''asset'', JStr (env_or env (js ''USDC_TOKEN_ADDRESS'')
                                  (js ''0x036CbD53842c5426634e7929541eC2318f3dCF7e''))),
           (js ''recipient'', JStr (env_or env (js ''RECEIVER_WALLET_ADDRESS'')
                                      (js ''0x501ab28fc3c7d29c2d12b243723eb5c5418b9de6''))),
           (js ''maximumAmount'', JStr (env_or env (js ''PAYMENT_AMOUNT'') (js ''100000''))),
           (js ''minimumAmount'', JStr (env_or env (js ''PAYMENT_AMOUNT'') (js ''100000''))),
           (js ''network'', JStr (env_or env (js ''NETWORK'') (js ''base-sepolia''))),
           (js ''description'',
              JStr (js ''Sentiment Analysis API - Premium GPT-4 powered analysis'')),
           (js ''timeout'', JNum (Fin 300000))]"

definition payment_required :: "env \<Rightarrow> response" where
  "payment_required env = res_json 402 (JObj [(js ''methods'', JArr [payment_method env])])"

definition invalid_format :: response where
  "invalid_format =
     res_json 400
       (JObj [(js ''error'', JStr (js ''Invalid payment format'')),
              (js ''message'',
                 JStr (js ''X-PAYMENT header must contain valid JSON signed authorization''))])"

definition invalid_authorization :: response where
  "invalid_authorization =
     res_json 400
       (JObj [(js ''error'', JStr (js ''Invalid authorization'')),
              (js ''message'', JStr (js ''Authorization missing required fields''))])"

definition already_used :: response where
  "already_used =
     res_json 400
       (JObj [(js ''error'', JStr (js ''Payment already used'')),
              (js ''message'',
                 JStr (js ''This payment authorization has already been processed''))])"

definition settlement_failed :: "jsstring \<Rightarrow> response" where
  "settlement_failed msg =
     res_json 402
       (JObj [(js ''error'', JStr (js ''Payment settlement failed'')), (js ''message'', JStr msg)])"

definition communication_failed :: "js_error \<Rightarrow> response" where
  "communication_failed facilitatorError =
     res_json 502
       (JObj [(js ''error'', JStr (js ''Facilitator communication failed'')),
              (js ''message'',
                 JStr (js ''Could not reach payment facilitator: '' @ message facilitatorError))])"

definition missing_text :: response where
  "missing_text = res_json 400 (JObj [(js ''error'', JStr (js ''Missing required field: text''))])"

definition internal_error :: "js_error \<Rightarrow> response" where
  "internal_error error =
     res_json 500
       (JObj [(js ''error'', JStr (js ''Internal server error'')),
              (js ''message'', JStr (message error))])"

text \<open>
  Step 3 of the handler, the \<open>try\<close> block around the facilitator: \<open>Inr\<close> the
  transaction hash when the payment is settled, \<open>Inl\<close> the response the handler returns
  otherwise. The argument is what \<open>fetch(facilitatorUrl, ...)\<close> gave.
\<close>

definition settle :: "js_error + http_response \<Rightarrow> response + jsval" where
  "settle fetched =
     (case fetched of
        Inl facilitatorError \<Rightarrow> Inl (communication_failed facilitatorError)
      | Inr facilitatorResponse \<Rightarrow>
          if \<not> ok facilitatorResponse then
            (case body_text facilitatorResponse of
               Inl facilitatorError \<Rightarrow> Inl (communication_failed facilitatorError)
             | Inr errorText \<Rightarrow> Inl (settlement_failed (js ''Facilitator error: '' @ errorText)))
          else
            (case response_json facilitatorResponse of
               Inl facilitatorError \<Rightarrow> Inl (communication_failed facilitatorError)
             | Inr facilitatorResult \<Rightarrow>
                 (case get_prop facilitatorResult (js ''transactionHash'') of
                    Inl facilitatorError \<Rightarrow> Inl (communication_failed facilitatorError)
                  | Inr transactionHash \<Rightarrow>
                      if \<not> truthy transactionHash
                      then Inl (settlement_failed (js ''Facilitator did not return transaction hash''))
                      else Inr transactionHash)))"

text \<open>
  Steps 4 to 6, after the payment is marked as processed. Destructuring a body that is
  \<open>null\<close> or \<open>undefined\<close> throws; \<open>text.substring\<close> exists on a string only. The last argument is what \<open>analyzeSentiment\<close> gave: the properties of its
  result, or a thrown error.
\<close>

definition serve_resource ::
  "env \<Rightarrow> jsval \<Rightarrow> jsval \<Rightarrow> (js_error + (jsstring \<times> jsval) list) \<Rightarrow> response \<times> event list" where
  "serve_resource env req_body transactionHash analysed =
     (case get_prop req_body (js ''text'') of
        Inl _ \<Rightarrow>
          (internal_error
             (TypeError (js ''Cannot destructure property '' @ [39] @ js ''text'' @ [39] @
                         js '' of '' @ [39] @ js ''req.body'' @ [39] @ js '' as it is '' @
                         type_name req_body @ js ''.'')),
           [])
      | Inr text \<Rightarrow>
          (let model = opt_prop req_body (js ''model'');
               temperature = opt_prop req_body (js ''temperature'')
           in if \<not> truthy text then (missing_text, [])
              else
                (case text of
                   JStr _ \<Rightarrow>
                     (case analysed of
                        Inl error \<Rightarrow> (internal_error error, [ResourceCall text model temperature])
                      | Inr result \<Rightarrow>
                          (res_json 200
                             (JObj (obj_set result (js ''payment'')
                                (JObj [(js ''transactionHash'', transactionHash),
                                       (js ''status'', JStr (js ''confirmed'')),
                                       (js ''network'', env_val env (js ''NETWORK''))]))),
                           [ResourceCall text model temperature]))
                 | _ \<Rightarrow>
                     (internal_error (TypeError (js ''text.substring is not a function'')), []))))"

text \<open>
  The handler. It takes the environment, the set of processed payments, the request, and
  what the two external calls give if they are made; it returns the set afterwards, the
  response, and the external calls made.
\<close>

definition post_sentiment ::
  "env \<Rightarrow> jsval set \<Rightarrow> request \<Rightarrow> (js_error + http_response) \<Rightarrow>
   (js_error + (jsstring \<times> jsval) list) \<Rightarrow> jsval set \<times> response \<times> event list" where
  "post_sentiment env processedPayments req fetched analysed =
     (case x_payment req of
        None \<Rightarrow> (processedPayments, payment_required env, [])
      | Some paymentHeader \<Rightarrow>
          if paymentHeader = [] then (processedPayments, payment_required env, [])
          else
            (case JSON_parse paymentHeader of
               Inl parseError \<Rightarrow> (processedPayments, invalid_format, [])
             | Inr signedAuth \<Rightarrow>
                 (case get_prop signedAuth (js ''payload'') of
                    Inl error \<Rightarrow> (processedPayments, internal_error error, [])
                  | Inr payload \<Rightarrow>
                      if \<not> truthy (opt_prop payload (js ''signature'')) \<or>
                         \<not> truthy (opt_prop payload (js ''authorization''))
                      then (processedPayments, invalid_authorization, [])
                      else
                        (let authNonce = \<comment> \<open>both reads succeed: the values read from are truthy\<close>
                               opt_prop (opt_prop payload (js ''authorization'')) (js ''nonce'');
                             call = FacilitatorCall (env (js ''FACILITATOR_URL'')) signedAuth
                         in if set_has processedPayments authNonce
                            then (processedPayments, already_used, [])
                            else
                              (case settle fetched of
                                 Inl failure \<Rightarrow> (processedPayments, failure, [call])
                               | Inr transactionHash \<Rightarrow>
                                   (let (res, calls) =
                                          serve_resource env (body req) transactionHash analysed
                                    in (set_add processedPayments authNonce, res, call # calls)))))))"

text \<open>Requests handled one after the other, each to completion, on the same set.\<close>

type_synonym exchange =
  "request \<times> (js_error + http_response) \<times> (js_error + (jsstring \<times> jsval) list)"

fun serve :: "env \<Rightarrow> jsval set \<Rightarrow> exchange list \<Rightarrow> (response \<times> event list) list" where
  "serve env processedPayments [] = []"
| "serve env processedPayments ((req, fetched, analysed) # rest) =
     (case post_sentiment env processedPayments req fetched analysed of
        (processedPayments', res, calls) \<Rightarrow> (res, calls) # serve env processedPayments' rest)"

text \<open>
  For the statements below. The nonce a request carries: that of the authorization in its
  header, when the header parses and has one. Whether its header has the two fields the
  handler requires. Whether a list of external calls has a call of the resource.
\<close>

definition request_auth :: "request \<Rightarrow> jsval option" where
  "request_auth req =
     (case x_payment req of
        None \<Rightarrow> None
      | Some paymentHeader \<Rightarrow>
          (case JSON_parse paymentHeader of
             Inl _ \<Rightarrow> None
           | Inr signedAuth \<Rightarrow>
               (let auth = opt_prop (opt_prop signedAuth (js ''payload'')) (js ''authorization'')
                in if truthy auth then Some auth else None)))"

definition request_nonce :: "request \<Rightarrow> jsval option" where
  "request_nonce req = map_option (\<lambda>auth. opt_prop auth (js ''nonce'')) (request_auth req)"

definition request_signed :: "request \<Rightarrow> bool" where
  "request_signed req =
     (case x_payment req of
        None \<Rightarrow> False
      | Some paymentHeader \<Rightarrow>
          (case JSON_parse paymentHeader of
             Inl _ \<Rightarrow> False
           | Inr signedAuth \<Rightarrow>
               truthy (opt_prop (opt_prop signedAuth (js ''payload'')) (js ''signature''))))"

definition invokes_resource :: "event list \<Rightarrow> bool" where
  "invokes_resource calls = list_ex is_resource_call calls"

section \<open>The two clients: X402Client and X402ServerClient\<close>

text \<open>
  A payment method as the clients read it. The timeout is a whole number of milliseconds.
  \<open>extra_name\<close> and \<open>extra_version\<close> are \<open>method.extra?.name\<close> and
  \<open>method.extra?.version\<close>, which only X402ServerClient reads.
\<close>

record payment_method_t =
  scheme :: jsstring
  asset :: jsstring
  recipient :: jsstring
  maximumAmount :: jsstring
  minimumAmount :: jsstring
  network :: jsstring
  description :: "jsstring option"
  timeout :: "nat option"
  extra_name :: "jsstring option"
  extra_version :: "jsstring option"

text \<open>The EIP-712 domain and the TransferWithAuthorization message that are signed.\<close>

record domain =
  name :: jsstring
  version :: jsstring
  chainId :: nat
  verifyingContract :: jsstring

record transfer_message =
  msg_from :: jsstring
  msg_to :: jsstring
  msg_value :: jsstring
  msg_validAfter :: nat
  msg_validBefore :: rat
  msg_nonce :: jsstring

text \<open>
  \<open>wallet.signTypedData(domain, types, message)\<close> with the fixed \<open>types\<close> of
  TransferWithAuthorization: a parameter, giving the signature or throwing.
  \<open>ethers.randomBytes\<close> is a parameter too, as is the clock \<open>Date.now()\<close>, in
  milliseconds.
\<close>

type_synonym sign_fn = "domain \<Rightarrow> transfer_message \<Rightarrow> js_error + jsstring"

type_synonym random_fn = "nat \<Rightarrow> nat list"

record authorization_t =
  auth_from :: jsstring
  auth_to :: jsstring
  auth_value :: jsstring
  auth_validAfter :: jsstring
  auth_validBefore :: jsstring
  auth_nonce :: jsstring

record signed_authorization =
  x402Version :: nat
  sa_scheme :: jsstring
  sa_network :: jsstring
  sa_signature :: jsstring
  sa_authorization :: authorization_t

function nat_digits :: "nat \<Rightarrow> jsstring" where
  "nat_digits n = (if n < 10 then [48 + n] else nat_digits (n div 10) @ [48 + n mod 10])"
  by pat_completeness auto
termination
  by (relation "measure id") auto

declare nat_digits.simps [simp del]

text \<open>
  \<open>toString\<close> of a number that is not negative and has at most three decimals, below
  \<open>10^21\<close>: the digits of the whole part, then the decimals without trailing zeros.
  The numbers of this section are kept as their exact values: with the clock below
  \<open>2^53\<close> and a timeout of a whole number of milliseconds, the source's double
  arithmetic gives the double nearest to the exact value, whose shortest decimal this is.
\<close>

definition number_toString :: "rat \<Rightarrow> jsstring" where
  "number_toString r =
     (let whole = nat \<lfloor>r\<rfloor>;
          milli = nat \<lfloor>(r - of_nat whole) * 1000\<rfloor>;
          decimals = [48 + milli div 100, 48 + milli div 10 mod 10, 48 + milli mod 10]
      in nat_digits whole @
         (if milli = 0 then []
          else 46 # rev (dropWhile (\<lambda>c. c = 48) (rev decimals))))"

text \<open>\<open>method.timeout ? method.timeout / 1000 : 300\<close>: a timeout of 0 is falsy.\<close>

definition validity_seconds :: "payment_method_t \<Rightarrow> rat" where
  "validity_seconds method =
     (case timeout method of
        None \<Rightarrow> 300
      | Some t \<Rightarrow> if t \<noteq> 0 then of_nat t / 1000 else 300)"


text \<open>\<open>v || d\<close> for an optional string.\<close>

definition str_or :: "jsstring option \<Rightarrow> jsstring \<Rightarrow> jsstring" where
  "str_or v d = (case v of None \<Rightarrow> d | Some s \<Rightarrow> if s = [] then d else s)"


definition server_domain :: "payment_method_t \<Rightarrow> domain" where
  "server_domain method =
     \<lparr>name = str_or (extra_name method) (js ''USDC''),
      version = str_or (extra_version method) (js ''2''),
      chainId = (if network method = js ''base'' then 8453 else 84532),
      verifyingContract = asset method\<rparr>"

text \<open>
  The body both clients share: the nonce, the validity window, the message, its
  signature, and the payload object. \<open>Inl\<close> is the error \<open>signTypedData\<close> threw.
\<close>

definition sign_transfer ::
  "sign_fn \<Rightarrow> random_fn \<Rightarrow> jsstring \<Rightarrow> nat \<Rightarrow> domain \<Rightarrow> payment_method_t \<Rightarrow>
   js_error + signed_authorization" where
  "sign_transfer signTypedData randomBytes wallet_address now dmn method =
     (let nonce = hexlify (randomBytes 32);
          validAfter = now div 1000;
          validBefore = of_nat validAfter + validity_seconds method;
          message = \<lparr>msg_from = wallet_address, msg_to = recipient method,
                     msg_value = maximumAmount method, msg_validAfter = validAfter,
                     msg_validBefore = validBefore, msg_nonce = nonce\<rparr>
      in case signTypedData dmn message of
           Inl error \<Rightarrow> Inl error
         | Inr signature \<Rightarrow>
             Inr \<lparr>x402Version = 1, sa_scheme = scheme method, sa_network = network method,
                  sa_signature = signature,
                  sa_authorization =
                    \<lparr>auth_from = wallet_address, auth_to = recipient method,
                     auth_value = maximumAmount method,
                     auth_validAfter = number_toString (of_nat validAfter),
                     auth_validBefore = number_toString validBefore,
                     auth_nonce = nonce\<rparr>\<rparr>)"


text \<open>\<open>JSON.stringify\<close> of the signed authorization object, its keys in the order written.\<close>

definition JSON_stringify :: "signed_authorization \<Rightarrow> jsstring" where
  "JSON_stringify a =
     js ''{'' @ quote (js ''x402Version'') @ js '':'' @ nat_digits (x402Version a) @ js '','' @
     quote (js ''scheme'') @ js '':'' @ quote (sa_scheme a) @ js '','' @
     quote (js ''network'') @ js '':'' @ quote (sa_network a) @ js '','' @
     quote (js ''payload'') @ js '':{'' @
       quote (js ''signature'') @ js '':'' @ quote (sa_signature a) @ js '','' @
       quote (js ''authorization'') @ js '':{'' @
         quote (js ''from'') @ js '':'' @ quote (auth_from (sa_authorization a)) @ js '','' @
         quote (js ''to'') @ js '':'' @ quote (auth_to (sa_authorization a)) @ js '','' @
         quote (js ''value'') @ js '':'' @ quote (auth_value (sa_authorization a)) @ js '','' @
         quote (js ''validAfter'') @ js '':'' @ quote (auth_validAfter (sa_authorization a)) @ js '','' @
         quote (js ''validBefore'') @ js '':'' @ quote (auth_validBefore (sa_authorization a)) @ js '','' @
         quote (js ''nonce'') @ js '':'' @ quote (auth_nonce (sa_authorization a)) @
     js ''}}}''"


text \<open>
  X402ServerClient.createPaymentAuthorization: the \<open>payload\<close> object, and the string it
  returns, which \<open>fetch\<close> puts into the \<open>X-PAYMENT\<close> header of the retried request.
\<close>

definition createPaymentAuthorization_payload ::
  "sign_fn \<Rightarrow> random_fn \<Rightarrow> jsstring \<Rightarrow> nat \<Rightarrow> payment_method_t \<Rightarrow> js_error + signed_authorization" where
  "createPaymentAuthorization_payload signTypedData randomBytes wallet_address now method =
     sign_transfer signTypedData randomBytes wallet_address now (server_domain method) method"

definition createPaymentAuthorization ::
  "sign_fn \<Rightarrow> random_fn \<Rightarrow> jsstring \<Rightarrow> nat \<Rightarrow> payment_method_t \<Rightarrow> js_error + jsstring" where
  "createPaymentAuthorization signTypedData randomBytes wallet_address now method =
     (case createPaymentAuthorization_payload signTypedData randomBytes wallet_address now method of
        Inl error \<Rightarrow> Inl error
      | Inr payload \<Rightarrow> Inr (base64 (utf8_encode (JSON_stringify payload))))"


definition handle :: "env \<Rightarrow> jsval set \<Rightarrow> exchange \<Rightarrow> jsval set \<times> response \<times> event list" where
  "handle env pp x = post_sentiment env pp (fst x) (fst (snd x)) (snd (snd x))"


section \<open>Concrete inputs\<close>

text \<open>A facilitator that cannot be reached, and one without a \<open>/verify\<close> endpoint.\<close>

definition fetch_unreachable :: fetch_fn where
  "fetch_unreachable url posted = Inl (TypeError (js ''fetch failed''))"

definition fetch_not_found :: fetch_fn where
  "fetch_not_found url posted = Inr \<lparr>status = 404, body_text = Inr (js ''Not Found'')\<rparr>"

text \<open>
  A fragment of keccak256: its value on the signature of the Transfer event; elsewhere
  a stand-in.
\<close>

definition keccak_table :: hash_fn where
  "keccak_table bs =
     (if bs = utf8_encode (js ''Transfer(address,address,uint256)'')
      then [221, 242, 82, 173, 27, 226, 200, 155, 105, 194, 176, 104, 252, 55, 141, 170,
            149, 43, 167, 241, 99, 196, 161, 22, 40, 245, 90, 77, 245, 35, 179, 239]
      else [0, 0, 0, 0, 0, 0, 0, 0, 0, 0, 0, 0, 0, 0, 0, 0,
            0, 0, 0, 0, 0, 0, 0, 0, 0, 0, 0, 0, 0, 0, 0, 0])"

definition usdc :: jsstring where
  "usdc = js ''0x036CbD53842c5426634e7929541eC2318f3dCF7e''"

definition receiver :: jsstring where
  "receiver = js ''0x501ab28fc3c7d29c2d12b243723eb5c5418b9de6''"

text \<open>A receipt with one transfer of 100000 units of the token to the receiver.\<close>

definition transfer_log :: log_entry where
  "transfer_log =
     \<lparr>address = usdc,
      topics = [js ''0xddf252ad1be2c89b69c2b068fc378daa952ba7f163c4a11628f55a4df523b3ef'',
                js ''0x0000000000000000000000001111111111111111111111111111111111111111'',
                js ''0x000000000000000000000000501ab28fc3c7d29c2d12b243723eb5c5418b9de6''],
      data = js ''0x00000000000000000000000000000000000000000000000000000000000186a0''\<rparr>"

definition paid_receipt :: receipt where
  "paid_receipt = \<lparr>receipt_status = Some 1, logs = [transfer_log]\<rparr>"

definition rpc_paid :: rpc_fn where
  "rpc_paid url h = Inr (Some paid_receipt)"

text \<open>
  A receipt in which a log of the token with the Transfer topic and empty data comes
  before the paying log.
\<close>

definition malformed_log :: log_entry where
  "malformed_log = transfer_log\<lparr>data := js ''0x''\<rparr>"

definition blocked_receipt :: receipt where
  "blocked_receipt = \<lparr>receipt_status = Some 1, logs = [malformed_log, transfer_log]\<rparr>"

definition rpc_blocked :: rpc_fn where
  "rpc_blocked url h = Inr (Some blocked_receipt)"

text \<open>
  A payment method as the gate offers it by default, a wallet, a signer, a clock reading
  and a random source, and the signed authorization the clients build from them.
\<close>

definition test_method :: payment_method_t where
  "test_method =
     \<lparr>scheme = js ''eip3009'', asset = js ''0x036CbD53842c5426634e7929541eC2318f3dCF7e'',
      recipient = js ''0x501ab28fc3c7d29c2d12b243723eb5c5418b9de6'',
      maximumAmount = js ''100000'', minimumAmount = js ''100000'',
      network = js ''base-sepolia'', description = None, timeout = Some 300000,
      extra_name = None, extra_version = None\<rparr>"

definition test_signature :: jsstring where
  "test_signature = js ''0x4c1e0f6b2a9d3c5e7f8091a2b3c4d5e6f708192a3b4c5d6e7f8091a2b3c4d5e6f1a2b3c4d5e6f708192a3b4c5d6e7f8091a2b3c4d5e6f708192a3b4c5d6e7f80911b''"

definition test_sign :: sign_fn where
  "test_sign d m = Inr test_signature"

definition test_random :: random_fn where
  "test_random n = take n [0, 0, 0, 0, 0, 0, 0, 0, 0, 0, 0, 0, 0, 0, 0, 0,
                           0, 0, 0, 0, 0, 0, 0, 0, 0, 0, 0, 0, 0, 0, 0, 1]"

definition test_wallet :: jsstring where
  "test_wallet = js ''0x2222222222222222222222222222222222222222''"

definition test_now :: nat where
  "test_now = 1700000000123"

definition test_nonce :: jsstring where
  "test_nonce = js ''0x0000000000000000000000000000000000000000000000000000000000000001''"

definition signed_example :: signed_authorization where
  "signed_example =
     \<lparr>x402Version = 1, sa_scheme = js ''eip3009'', sa_network = js ''base-sepolia'',
      sa_signature = test_signature,
      sa_authorization =
        \<lparr>auth_from = test_wallet,
         auth_to = js ''0x501ab28fc3c7d29c2d12b243723eb5c5418b9de6'',
         auth_value = js ''100000'',
         auth_validAfter = js ''1700000000'',
         auth_validBefore = js ''1700000300'',
         auth_nonce = test_nonce\<rparr>\<rparr>"

text \<open>The header with that authorization as raw JSON, and what it parses to.\<close>

definition paid_header :: jsstring where
  "paid_header = JSON_stringify signed_example"

definition example_authorization :: jsval where
  "example_authorization =
     JObj [(js ''from'', JStr test_wallet),
           (js ''to'', JStr (js ''0x501ab28fc3c7d29c2d12b243723eb5c5418b9de6'')),
           (js ''value'', JStr (js ''100000'')),
           (js ''validAfter'', JStr (js ''1700000000'')),
           (js ''validBefore'', JStr (js ''1700000300'')),
           (js ''nonce'', JStr test_nonce)]"

definition example_payload :: jsval where
  "example_payload =
     JObj [(js ''signature'', JStr test_signature), (js ''authorization'', example_authorization)]"

definition signed_example_json :: jsval where
  "signed_example_json =
     JObj [(js ''x402Version'', JNum (Fin 1)),
           (js ''scheme'', JStr (js ''eip3009'')),
           (js ''network'', JStr (js ''base-sepolia'')),
           (js ''payload'', example_payload)]"

text \<open>The same authorization in base64, as X402ServerClient sends it.\<close>

definition base64_header :: jsstring where
  "base64_header = base64 (utf8_encode paid_header)"

text \<open>Requests: without a header, with the raw JSON header, and with the base64 header.\<close>

definition unpaid_request :: request where
  "unpaid_request = \<lparr>x_payment = None, body = JObj [(js ''text'', JStr (js ''I love it''))]\<rparr>"

definition paid_request :: request where
  "paid_request =
     \<lparr>x_payment = Some paid_header, body = JObj [(js ''text'', JStr (js ''I love it''))]\<rparr>"

definition paid_request_without_text :: request where
  "paid_request_without_text = \<lparr>x_payment = Some paid_header, body = JObj []\<rparr>"

definition base64_request :: request where
  "base64_request =
     \<lparr>x_payment = Some base64_header, body = JObj [(js ''text'', JStr (js ''I love it''))]\<rparr>"

text \<open>
  What the facilitator can answer: a settlement with a transaction hash, status 503, or
  nothing at all; and what the resource answers.
\<close>

definition settled_hash :: jsstring where
  "settled_hash = js ''0xdeadbeefdeadbeefdeadbeefdeadbeefdeadbeefdeadbeefdeadbeefdeadbeef''"

definition facilitator_settles :: "js_error + http_response" where
  "facilitator_settles =
     Inr \<lparr>status = 200,
          body_text = Inr (js ''{'' @ quote (js ''transactionHash'') @ js '':'' @
                           quote settled_hash @ js ''}'')\<rparr>"



definition positive_result :: "(jsstring \<times> jsval) list" where
  "positive_result =
     [(js ''text'', JStr (js ''I love it'')),
      (js ''sentiment'', JStr (js ''positive'')),
      (js ''confidence'', JNum (Fin (19 / 20))),
      (js ''explanation'', JStr (js ''Strong enthusiasm''))]"

definition analysed_positive :: "js_error + (jsstring \<times> jsval) list" where
  "analysed_positive = Inr positive_result"

definition test_env :: env where
  "test_env k =
     (if k = js ''FACILITATOR_URL'' then Some (js ''https://facilitator.example/settle'')
      else if k = js ''NETWORK'' then Some (js ''base-sepolia'')
      else None)"


definition positive_response :: response where
  "positive_response =
     res_json 200
       (JObj [(js ''text'', JStr (js ''I love it'')),
              (js ''sentiment'', JStr (js ''positive'')),
              (js ''confidence'', JNum (Fin (19 / 20))),
              (js ''explanation'', JStr (js ''Strong enthusiasm'')),
              (js ''payment'',
                 JObj [(js ''transactionHash'', JStr settled_hash),
                       (js ''status'', JStr (js ''confirmed'')),
                       (js ''network'', JStr (js ''base-sepolia''))])])"

definition paid_calls :: "event list" where
  "paid_calls =
     [FacilitatorCall (Some (js ''https://facilitator.example/settle'')) signed_example_json,
      ResourceCall (JStr (js ''I love it'')) JUndefined JUndefined]"










section \<open>Properties\<close>

subsection \<open>The facilitator validator and its format fallback\<close>

text \<open>
  Claim C1, as amended. \<open>validatePayment\<close> returns true exactly when the facilitator
  confirmed the payment (a 2xx answer whose JSON body has \<open>valid === true\<close>), or the
  exchange with the facilitator failed and the transaction hash passes the format check:
  at least 10 code units and, if it starts with \<open>0x\<close>, hex digits only after that.
  The exchange failed when anything in the \<open>try\<close> block threw (\<open>fetch\<close> rejected,
  the body of a 2xx answer could not be read or parsed as JSON, or it parsed to \<open>null\<close>,
  so that reading \<open>valid\<close> throws), or when the status is 404 or 501. Any other
  status outside 2xx rejects, and so does a 2xx answer whose JSON is not \<open>null\<close> and
  has no \<open>valid === true\<close>.
\<close>

theorem validatePayment_accepts:
  "validatePayment fetch transactionHash expectedRecipient expectedAmount facilitatorUrl =
     (let r = fetch (facilitatorUrl @ js ''/verify'')
                    (verify_body transactionHash expectedRecipient expectedAmount)
      in facilitator_confirmed r \<or>
         (facilitator_failed r \<and> 10 \<le> length transactionHash \<and>
          (take 2 transactionHash = js ''0x'' \<longrightarrow> is_hex_string transactionHash)))"
  by (auto simp: validatePayment_def facilitator_confirmed_def facilitator_failed_def
      validatePaymentFallback_def Let_def split: sum.splits)

theorem validatePayment_accepts_witness:
  "take 2 (js ''0x1234567890'') = js ''0x'' \<and> is_hex_string (js ''0x1234567890'') \<and>
   validatePayment fetch_not_found (js ''0x1234567890'') (js ''0x501a'') (js ''100000'')
     (js ''http://localhost:4022'')"
  using validatePayment_accepts [of fetch_not_found "js ''0x1234567890''" "js ''0x501a''"
      "js ''100000''" "js ''http://localhost:4022''"]
  by (simp add: fetch_not_found_def facilitator_failed_def facilitator_confirmed_def ok_def
      is_hex_string_def js_def hexval_def)

text \<open>
  Claim C1 as stated fails: with the facilitator unreachable, and with a facilitator
  that answers 404, a string that is no transaction hash is accepted, and the
  facilitator confirmed nothing.
\<close>

theorem validatePayment_fallback_counterexample:
  "validatePayment fetch_unreachable (js ''not-a-real-hash'') (js ''0x501a'') (js ''100000'')
     (js ''http://localhost:4022'') = True \<and>
   \<not> facilitator_confirmed
       (fetch_unreachable (js ''http://localhost:4022'' @ js ''/verify'')
          (verify_body (js ''not-a-real-hash'') (js ''0x501a'') (js ''100000''))) \<and>
   validatePayment fetch_not_found (js ''not-a-real-hash'') (js ''0x501a'') (js ''100000'')
     (js ''http://localhost:4022'') = True \<and>
   \<not> facilitator_confirmed
       (fetch_not_found (js ''http://localhost:4022'' @ js ''/verify'')
          (verify_body (js ''not-a-real-hash'') (js ''0x501a'') (js ''100000'')))"
  by (simp add: validatePayment_def fetch_unreachable_def fetch_not_found_def
      validatePaymentFallback_def facilitator_confirmed_def ok_def js_def)

subsection \<open>The on-chain validator\<close>

lemma lower_upper_char: "lower_char (upper_char c) = lower_char c"
  by (auto simp: lower_char_def upper_char_def)

lemma lower_lower_char: "lower_char (lower_char c) = lower_char c"
  by (simp add: lower_char_def)

lemma lower_checksum_case:
  "map lower_char (checksum_case cs ns) = map lower_char cs"
  by (induction cs ns rule: checksum_case.induct) (simp_all add: lower_upper_char)

lemma getAddress_lower:
  assumes "getAddress_0x k t = Inr a"
  shows "toLowerCase a = toLowerCase (js ''0x'' @ t)"
proof -
  from assms have a: "a = getChecksumAddress k (js ''0x'' @ t)"
    by (auto simp: getAddress_0x_def Let_def split: if_splits)
  have "drop 2 (toLowerCase (js ''0x'' @ t)) = map lower_char t"
    by (simp add: toLowerCase_def js_def)
  then show ?thesis
    unfolding a getChecksumAddress_def Let_def
    by (simp add: toLowerCase_def lower_checksum_case lower_lower_char js_def lower_char_def)
qed

lemma decode_transfer_Inr:
  "decode_transfer k lg = Inr (f, t, am) \<longleftrightarrow>
     3 \<le> length (topics lg) \<and> getAddress_0x k (drop 26 (topics lg ! 1)) = Inr f \<and>
     getAddress_0x k (drop 26 (topics lg ! 2)) = Inr t \<and> js_BigInt (data lg) = Inr am"
  by (auto simp: decode_transfer_def topic_address_def split: sum.splits if_splits)

lemma well_formed_decodes:
  "claim_well_formed k lg \<longleftrightarrow> (\<exists>f t am. decode_transfer k lg = Inr (f, t, am))"
proof (cases "getAddress_0x k (drop 26 (topics lg ! 1))")
  case (Inl e)
  then show ?thesis by (simp add: claim_well_formed_def decode_transfer_Inr)
next
  case f: (Inr f)
  show ?thesis
  proof (cases "getAddress_0x k (drop 26 (topics lg ! 2))")
    case (Inl e)
    then show ?thesis by (simp add: claim_well_formed_def decode_transfer_Inr)
  next
    case t: (Inr t)
    show ?thesis
    proof (cases "js_BigInt (data lg)")
      case (Inl e)
      then show ?thesis by (simp add: claim_well_formed_def decode_transfer_Inr)
    next
      case (Inr am)
      with f t show ?thesis by (simp add: claim_well_formed_def decode_transfer_Inr)
    qed
  qed
qed

lemma token_transfer_filter: "is_transfer_log k token lg = claim_token_transfer k token lg"
  by (cases "topics lg") (simp_all add: is_transfer_log_def claim_token_transfer_def)

text \<open>The loop returns true exactly at the first paying log, if all logs up to it decode.\<close>

lemma scan_transfer_logs_true:
  "scan_transfer_logs k ls r a = Inr True \<longleftrightarrow>
     (\<exists>before lg after. ls = before @ lg # after \<and> claim_pays r a lg \<and>
        claim_well_formed k lg \<and> list_all (claim_well_formed k) before)"
proof (induction ls)
  case Nil
  then show ?case by simp
next
  case (Cons x xs)
  let ?R = "\<lambda>ls. \<exists>before lg after. ls = before @ lg # after \<and> claim_pays r a lg \<and>
        claim_well_formed k lg \<and> list_all (claim_well_formed k) before"
  show ?case
  proof (cases "claim_well_formed k x")
    case False
    then have "\<nexists>f t am. decode_transfer k x = Inr (f, t, am)" by (simp add: well_formed_decodes)
    then have l: "scan_transfer_logs k (x # xs) r a \<noteq> Inr True"
      by (cases "decode_transfer k x") auto
    have "\<not> ?R (x # xs)"
    proof
      assume "?R (x # xs)"
      then obtain before lg after where d: "x # xs = before @ lg # after" "claim_well_formed k lg"
        "list_all (claim_well_formed k) before" by blast
      with False show False by (cases before) auto
    qed
    with l show ?thesis by simp
  next
    case wf: True
    then obtain f t am where d: "decode_transfer k x = Inr (f, t, am)"
      by (auto simp: well_formed_decodes)
    then have t: "toLowerCase t = toLowerCase (js ''0x'' @ drop 26 (topics x ! 2))"
      and am: "js_BigInt (data x) = Inr am"
      by (auto simp: decode_transfer_Inr getAddress_lower)
    have tail: "?R (x # xs) \<longleftrightarrow> claim_pays r a x \<or> ?R xs"
    proof
      assume "?R (x # xs)"
      then obtain before lg after where e: "x # xs = before @ lg # after" "claim_pays r a lg"
        "claim_well_formed k lg" "list_all (claim_well_formed k) before" by blast
      show "claim_pays r a x \<or> ?R xs"
      proof (cases before)
        case Nil
        with e show ?thesis by simp
      next
        case (Cons b bs)
        with e have "xs = bs @ lg # after" "list_all (claim_well_formed k) bs" by simp_all
        with e(2,3) show ?thesis by blast
      qed
    next
      assume "claim_pays r a x \<or> ?R xs"
      then show "?R (x # xs)"
      proof
        assume "claim_pays r a x"
        with wf have "x # xs = [] @ x # xs \<and> claim_pays r a x \<and> claim_well_formed k x \<and>
            list_all (claim_well_formed k) []" by simp
        then show ?thesis by blast
      next
        assume "?R xs"
        then obtain before lg after where e: "xs = before @ lg # after" "claim_pays r a lg"
          "claim_well_formed k lg" "list_all (claim_well_formed k) before" by blast
        with wf have "x # xs = (x # before) @ lg # after \<and> claim_pays r a lg \<and>
            claim_well_formed k lg \<and> list_all (claim_well_formed k) (x # before)" by simp
        then show ?thesis by blast
      qed
    qed
    show ?thesis
    proof (cases "claim_pays r a x")
      case True
      with d t am have "scan_transfer_logs k (x # xs) r a = Inr True"
        by (auto simp: claim_pays_def split: sum.splits)
      with True tail show ?thesis by simp
    next
      case np: False
      show ?thesis
      proof (cases "toLowerCase t = toLowerCase r")
        case False
        with d have "scan_transfer_logs k (x # xs) r a = scan_transfer_logs k xs r a" by simp
        with np tail Cons.IH show ?thesis by simp
      next
        case same: True
        show ?thesis
        proof (cases "js_BigInt a")
          case (Inl e)
          with d same have l: "scan_transfer_logs k (x # xs) r a \<noteq> Inr True" by simp
          from Inl have "\<And>lg. \<not> claim_pays r a lg"
            by (simp add: claim_pays_def split: sum.splits)
          with l tail show ?thesis by blast
        next
          case (Inr minimum)
          with np same t am have "\<not> minimum \<le> am" by (simp add: claim_pays_def)
          with d same Inr have "scan_transfer_logs k (x # xs) r a = scan_transfer_logs k xs r a"
            by simp
          with np tail Cons.IH show ?thesis by simp
        qed
      qed
    qed
  qed
qed

lemma transfer_log_facts:
  "claim_token_transfer keccak_table usdc transfer_log"
  "claim_pays receiver (js ''100000'') transfer_log"
  "claim_well_formed keccak_table transfer_log"
proof -
  show "claim_token_transfer keccak_table usdc transfer_log"
    by (simp add: claim_token_transfer_def transfer_log_def ethers_id_def keccak_table_def
        hexlify_def hexdigit_def js_def)
  show "claim_pays receiver (js ''100000'') transfer_log"
    by (simp add: claim_pays_def transfer_log_def receiver_def toLowerCase_def lower_char_def
        js_BigInt_def trim_def is_str_ws_def digits_in_def digit_val_def js_def)
  show "claim_well_formed keccak_table transfer_log"
    by (simp add: claim_well_formed_def transfer_log_def getAddress_0x_def hexval_def
        mixed_case_def getChecksumAddress_def keccak_table_def toLowerCase_def lower_char_def
        js_BigInt_def trim_def is_str_ws_def digits_in_def digit_val_def js_def)
qed

lemma malformed_log_facts:
  "is_transfer_log keccak_table usdc malformed_log"
  "claim_token_transfer keccak_table usdc malformed_log"
  "isl (decode_transfer keccak_table malformed_log)"
proof -
  show c: "claim_token_transfer keccak_table usdc malformed_log"
    by (simp add: claim_token_transfer_def malformed_log_def transfer_log_def ethers_id_def
        keccak_table_def hexlify_def hexdigit_def js_def)
  then show "is_transfer_log keccak_table usdc malformed_log"
    by (simp add: token_transfer_filter)
  show "isl (decode_transfer keccak_table malformed_log)"
    by (simp add: decode_transfer_def malformed_log_def transfer_log_def topic_address_def
        getAddress_0x_def hexval_def mixed_case_def getChecksumAddress_def keccak_table_def
        toLowerCase_def lower_char_def js_BigInt_def trim_def is_str_ws_def digits_in_def
        js_def)
qed

text \<open>
  Claim C8, as amended. \<open>validatePaymentOnChain\<close> accepts exactly when the receipt
  exists, its status is 1, and, among the Transfer logs of the token contract in the
  order of the receipt, there is a well-formed log that pays the expected recipient at
  least the expected amount and every log before it is well-formed. In every other case
  it rejects: no receipt, an RPC error, a failed transaction, no paying log, or a
  malformed log of the token ahead of the paying one.
\<close>

theorem validatePaymentOnChain_accepts_iff:
  "validatePaymentOnChain keccak256 rpc transactionHash rpcUrl expectedRecipient expectedAmount tokenAddress \<longleftrightarrow>
     (\<exists>receipt before lg after.
        rpc rpcUrl transactionHash = Inr (Some receipt) \<and> receipt_status receipt = Some 1 \<and>
        filter (claim_token_transfer keccak256 tokenAddress) (logs receipt) = before @ lg # after \<and>
        claim_pays expectedRecipient expectedAmount lg \<and> claim_well_formed keccak256 lg \<and>
        list_all (claim_well_formed keccak256) before)"
proof -
  have f: "is_transfer_log keccak256 tokenAddress = claim_token_transfer keccak256 tokenAddress"
    by (rule ext) (rule token_transfer_filter)
  show ?thesis
  proof (cases "rpc rpcUrl transactionHash")
    case (Inl e)
    then show ?thesis by (simp add: validatePaymentOnChain_def)
  next
    case (Inr found)
    show ?thesis
    proof (cases found)
      case None
      with Inr show ?thesis by (simp add: validatePaymentOnChain_def)
    next
      case (Some receipt)
      let ?tl = "filter (claim_token_transfer keccak256 tokenAddress) (logs receipt)"
      show ?thesis
      proof (cases "receipt_status receipt = Some 1")
        case False
        with Inr Some show ?thesis by (simp add: validatePaymentOnChain_def)
      next
        case True
        have "validatePaymentOnChain keccak256 rpc transactionHash rpcUrl expectedRecipient
            expectedAmount tokenAddress \<longleftrightarrow>
          scan_transfer_logs keccak256 ?tl expectedRecipient expectedAmount = Inr True"
          using Inr Some True
          by (cases "scan_transfer_logs keccak256 ?tl expectedRecipient expectedAmount")
            (auto simp: validatePaymentOnChain_def f Let_def)
        with Inr Some True show ?thesis
          by (simp add: scan_transfer_logs_true)
      qed
    qed
  qed
qed

theorem validatePaymentOnChain_accepts_iff_witness:
  "rpc_paid (js ''https://sepolia.base.org'') (js ''0xabc'') = Inr (Some paid_receipt) \<and>
   receipt_status paid_receipt = Some 1 \<and>
   filter (claim_token_transfer keccak_table usdc) (logs paid_receipt) = [] @ transfer_log # [] \<and>
   claim_pays receiver (js ''100000'') transfer_log \<and>
   claim_well_formed keccak_table transfer_log \<and>
   validatePaymentOnChain keccak_table rpc_paid (js ''0xabc'') (js ''https://sepolia.base.org'')
     receiver (js ''100000'') usdc"
proof -
  have r: "rpc_paid (js ''https://sepolia.base.org'') (js ''0xabc'') = Inr (Some paid_receipt)"
    by (simp add: rpc_paid_def)
  have s: "receipt_status paid_receipt = Some 1" by (simp add: paid_receipt_def)
  have f: "filter (claim_token_transfer keccak_table usdc) (logs paid_receipt) =
      [] @ transfer_log # []"
    by (simp add: paid_receipt_def transfer_log_facts)
  have e: "list_all (claim_well_formed keccak_table) []" by simp
  from r s f e transfer_log_facts
    validatePaymentOnChain_accepts_iff [of keccak_table rpc_paid "js ''0xabc''"
      "js ''https://sepolia.base.org''" receiver "js ''100000''" usdc]
  show ?thesis by blast
qed

text \<open>
  Claim C8 as stated fails: the receipt exists with status 1 and has a Transfer log of
  the token that pays the recipient the expected amount, but a log of the token with
  empty data comes first, \<open>BigInt\<close> throws on it, and the validator rejects.
\<close>

theorem malformed_log_counterexample:
  "rpc_blocked (js ''https://sepolia.base.org'') (js ''0xabc'') = Inr (Some blocked_receipt) \<and>
   receipt_status blocked_receipt = Some 1 \<and>
   logs blocked_receipt = [malformed_log, transfer_log] \<and>
   claim_token_transfer keccak_table usdc transfer_log \<and>
   claim_pays receiver (js ''100000'') transfer_log \<and>
   \<not> validatePaymentOnChain keccak_table rpc_blocked (js ''0xabc'')
       (js ''https://sepolia.base.org'') receiver (js ''100000'') usdc"
proof -
  have "is_transfer_log keccak_table usdc transfer_log"
    by (simp add: token_transfer_filter transfer_log_facts)
  with malformed_log_facts
  have "\<not> validatePaymentOnChain keccak_table rpc_blocked (js ''0xabc'')
       (js ''https://sepolia.base.org'') receiver (js ''100000'') usdc"
    by (cases "decode_transfer keccak_table malformed_log")
      (simp_all add: validatePaymentOnChain_def rpc_blocked_def blocked_receipt_def)
  then show ?thesis
    by (simp add: rpc_blocked_def blocked_receipt_def transfer_log_facts)
qed

subsection \<open>The payment gate\<close>

lemma JSON_parse_empty: "JSON_parse [] = Inl (SyntaxError (js ''Unexpected token in JSON''))"
  by (simp add: JSON_parse_def)

lemma opt_prop_undefined: "opt_prop JUndefined k = JUndefined"
  by (simp add: opt_prop_def)

lemma opt_prop_get: "get_prop v k = Inr x \<Longrightarrow> opt_prop v k = x"
  by (simp add: opt_prop_def)

lemma request_auth_SomeD:
  assumes "request_auth req = Some auth"
  obtains h sa p where "x_payment req = Some h" and "h \<noteq> []" and "JSON_parse h = Inr sa"
    and "get_prop sa (js ''payload'') = Inr p" and "opt_prop p (js ''authorization'') = auth"
    and "truthy auth"
proof -
  from assms obtain h where h: "x_payment req = Some h"
    by (auto simp: request_auth_def split: option.splits)
  with assms obtain sa where sa: "JSON_parse h = Inr sa"
    by (auto simp: request_auth_def split: sum.splits)
  from h sa assms have t: "truthy auth"
    and a: "opt_prop (opt_prop sa (js ''payload'')) (js ''authorization'') = auth"
    by (auto simp: request_auth_def Let_def split: if_splits)
  from sa have ne: "h \<noteq> []" by (auto simp: JSON_parse_empty)
  show thesis
  proof (cases "get_prop sa (js ''payload'')")
    case (Inl e)
    then have "opt_prop sa (js ''payload'') = JUndefined" by (simp add: opt_prop_def)
    with a t show thesis by (simp add: opt_prop_undefined)
  next
    case (Inr p)
    with a have a': "opt_prop p (js ''authorization'') = auth" by (simp add: opt_prop_get)
    from h ne sa Inr a' t show thesis by (rule that)
  qed
qed

text \<open>The handler on a request whose header has an authorization.\<close>

lemma post_sentiment_with_auth:
  assumes "x_payment req = Some h" and "h \<noteq> []" and "JSON_parse h = Inr sa"
    and "get_prop sa (js ''payload'') = Inr p" and "truthy (opt_prop p (js ''authorization''))"
  shows "post_sentiment env pp req f a =
     (if \<not> truthy (opt_prop p (js ''signature'')) then (pp, invalid_authorization, [])
      else if set_has pp (opt_prop (opt_prop p (js ''authorization'')) (js ''nonce''))
      then (pp, already_used, [])
      else
        (case settle f of
           Inl failure \<Rightarrow> (pp, failure, [FacilitatorCall (env (js ''FACILITATOR_URL'')) sa])
         | Inr tx \<Rightarrow>
             (set_add pp (opt_prop (opt_prop p (js ''authorization'')) (js ''nonce'')),
              fst (serve_resource env (body req) tx a),
              FacilitatorCall (env (js ''FACILITATOR_URL'')) sa # snd (serve_resource env (body req) tx a))))"
  using assms by (simp add: post_sentiment_def Let_def split: sum.splits prod.splits)



lemma serve_resource_invokes:
  "invokes_resource (snd (serve_resource env b tx a)) \<Longrightarrow>
     \<exists>t. get_prop b (js ''text'') = Inr (JStr t) \<and> t \<noteq> []"
  by (auto simp: serve_resource_def invokes_resource_def Let_def split: sum.splits jsval.splits if_splits)


lemma serve_Cons:
  "serve env pp (x # xs) =
     (fst (snd (handle env pp x)), snd (snd (handle env pp x))) # serve env (fst (handle env pp x)) xs"
  by (cases x) (simp add: handle_def split: prod.splits)

lemma serve_length: "length (serve env pp xs) = length xs"
  by (induction xs arbitrary: pp) (simp_all add: serve_Cons)









lemma parse_paid_header: "JSON_parse paid_header = Inr signed_example_json"
  by (simp add: paid_header_def JSON_stringify_def signed_example_def quote_def js_def
      test_signature_def test_wallet_def test_nonce_def
      is_high_surrogate_def is_low_surrogate_def nat_digits.simps JSON_parse_def is_ws_def
      is_digit_def scan_number_def double_of_rat_def double_of_pos_def ilog2_def
      bitlen.simps pow2_def round_half_even_def Let_def signed_example_json_def
      example_payload_def example_authorization_def)

lemma parse_base64_header:
  "JSON_parse base64_header = Inl (SyntaxError (js ''Unexpected token in JSON''))"
  by (simp add: base64_header_def paid_header_def JSON_stringify_def signed_example_def
      quote_def js_def test_signature_def test_wallet_def test_nonce_def
      is_high_surrogate_def is_low_surrogate_def nat_digits.simps JSON_parse_def is_ws_def
      is_digit_def b64char_def)

lemma example_payload_read:
  "get_prop signed_example_json (js ''payload'') = Inr example_payload"
  "opt_prop example_payload (js ''signature'') = JStr test_signature"
  "opt_prop example_payload (js ''authorization'') = example_authorization"
  "opt_prop example_authorization (js ''nonce'') = JStr test_nonce"
  "opt_prop example_authorization (js ''validBefore'') = JStr (js ''1700000300'')"
  by (simp_all add: signed_example_json_def example_payload_def example_authorization_def
      opt_prop_def js_def)

lemma settle_settles: "settle facilitator_settles = Inr (JStr settled_hash)"
  by (simp add: settle_def facilitator_settles_def ok_def response_json_def JSON_parse_def
      quote_def js_def settled_hash_def is_ws_def is_digit_def
      is_high_surrogate_def is_low_surrogate_def)

lemma paid_header_not_empty: "paid_header \<noteq> []"
  by (simp add: paid_header_def JSON_stringify_def js_def)

lemma example_payload_opt: "opt_prop signed_example_json (js ''payload'') = example_payload"
  by (simp add: opt_prop_get example_payload_read)

lemma example_truthy:
  "truthy example_authorization" "test_signature \<noteq> []" "is_primitive (JStr test_nonce)"
  by (simp_all add: example_authorization_def test_signature_def js_def)

lemma paid_header_carries:
  assumes "x_payment req = Some paid_header"
  shows "request_auth req = Some example_authorization"
    and "request_nonce req = Some (JStr test_nonce)"
    and "request_signed req"
  using assms
  by (simp_all add: request_nonce_def request_auth_def request_signed_def parse_paid_header
      example_payload_opt example_payload_read example_truthy Let_def)



lemma post_sentiment_signed:
  assumes "request_signed req" and "request_nonce req = Some n"
  shows "\<exists>sa. \<forall>env pp f a. post_sentiment env pp req f a =
     (if set_has pp n then (pp, already_used, [])
      else
        (case settle f of
           Inl failure \<Rightarrow> (pp, failure, [FacilitatorCall (env (js ''FACILITATOR_URL'')) sa])
         | Inr tx \<Rightarrow>
             (set_add pp n, fst (serve_resource env (body req) tx a),
              FacilitatorCall (env (js ''FACILITATOR_URL'')) sa # snd (serve_resource env (body req) tx a))))"
proof -
  from assms(2) obtain auth where au: "request_auth req = Some auth"
    and n: "n = opt_prop auth (js ''nonce'')"
    by (auto simp: request_nonce_def)
  from au obtain h sa p where d: "x_payment req = Some h" "h \<noteq> []" "JSON_parse h = Inr sa"
    "get_prop sa (js ''payload'') = Inr p" "opt_prop p (js ''authorization'') = auth" "truthy auth"
    by (rule request_auth_SomeD)
  from d have t: "truthy (opt_prop p (js ''authorization''))" by simp
  from assms(1) d have s: "truthy (opt_prop p (js ''signature''))"
    by (simp add: request_signed_def opt_prop_get)
  from n d(5) have nn: "opt_prop (opt_prop p (js ''authorization'')) (js ''nonce'') = n" by simp
  have "\<forall>env pp f a. post_sentiment env pp req f a =
     (if set_has pp n then (pp, already_used, [])
      else
        (case settle f of
           Inl failure \<Rightarrow> (pp, failure, [FacilitatorCall (env (js ''FACILITATOR_URL'')) sa])
         | Inr tx \<Rightarrow>
             (set_add pp n, fst (serve_resource env (body req) tx a),
              FacilitatorCall (env (js ''FACILITATOR_URL'')) sa # snd (serve_resource env (body req) tx a))))"
    using post_sentiment_with_auth [OF d(1) d(2) d(3) d(4) t, unfolded nn] s by simp
  then show ?thesis by (rule exI)
qed

text \<open>The outcomes of the handler, one case for each \<open>return\<close>.\<close>

lemma post_sentiment_cases:
  obtains
    (challenge) "x_payment req = None \<or> x_payment req = Some []"
      "post_sentiment env pp req f a = (pp, payment_required env, [])"
  | (unparsed) h e where "x_payment req = Some h" "h \<noteq> []" "JSON_parse h = Inl e"
      "post_sentiment env pp req f a = (pp, invalid_format, [])"
  | (thrown) h sa e where "x_payment req = Some h" "JSON_parse h = Inr sa"
      "post_sentiment env pp req f a = (pp, internal_error e, [])"
  | (unsigned) h sa where "x_payment req = Some h" "JSON_parse h = Inr sa"
      "post_sentiment env pp req f a = (pp, invalid_authorization, [])"
  | (replayed) h sa where "x_payment req = Some h" "JSON_parse h = Inr sa"
      "post_sentiment env pp req f a = (pp, already_used, [])"
  | (unsettled) h sa failure where "x_payment req = Some h" "JSON_parse h = Inr sa"
      "settle f = Inl failure"
      "post_sentiment env pp req f a = (pp, failure, [FacilitatorCall (env (js ''FACILITATOR_URL'')) sa])"
  | (settled) h sa tx n where "x_payment req = Some h" "JSON_parse h = Inr sa"
      "settle f = Inr tx" "request_nonce req = Some n"
      "post_sentiment env pp req f a =
         (set_add pp n, fst (serve_resource env (body req) tx a),
          FacilitatorCall (env (js ''FACILITATOR_URL'')) sa # snd (serve_resource env (body req) tx a))"
proof (cases "x_payment req")
  case None
  then show thesis by (intro challenge) (simp_all add: post_sentiment_def)
next
  case (Some h)
  show thesis
  proof (cases "h = []")
    case True
    with Some show thesis by (intro challenge) (simp_all add: post_sentiment_def)
  next
    case ne: False
    show thesis
    proof (cases "JSON_parse h")
      case (Inl e)
      with Some ne show thesis by (intro unparsed [of h e]) (simp_all add: post_sentiment_def)
    next
      case (Inr sa)
      show thesis
      proof (cases "get_prop sa (js ''payload'')")
        case (Inl e)
        with Some ne Inr show thesis
          by (intro thrown [of h sa e]) (simp_all add: post_sentiment_def)
      next
        case p: (Inr p)
        show thesis
        proof (cases "truthy (opt_prop p (js ''authorization''))")
          case False
          with Some ne Inr p show thesis
            by (intro unsigned [of h sa]) (simp_all add: post_sentiment_def)
        next
          case True
          note ps = post_sentiment_with_auth [OF Some ne Inr p True, of env pp f a]
          from Some Inr p True
          have rn: "request_nonce req = Some (opt_prop (opt_prop p (js ''authorization'')) (js ''nonce''))"
            by (simp add: request_nonce_def request_auth_def opt_prop_get Let_def)
          show thesis
          proof (cases "truthy (opt_prop p (js ''signature''))")
            case False
            with ps Some Inr show thesis by (intro unsigned [of h sa]) simp_all
          next
            case sg: True
            show thesis
            proof (cases "set_has pp (opt_prop (opt_prop p (js ''authorization'')) (js ''nonce''))")
              case True
              with ps sg Some Inr show thesis by (intro replayed [of h sa]) simp_all
            next
              case fresh: False
              show thesis
              proof (cases "settle f")
                case (Inl failure)
                with ps sg fresh Some Inr show thesis
                  by (intro unsettled [of h sa failure]) simp_all
              next
                case tx: (Inr tx)
                with ps sg fresh Some Inr rn show thesis
                  by (intro settled [of h sa tx]) simp_all
              qed
            qed
          qed
        qed
      qed
    qed
  qed
qed




lemma status_simps:
  "res_status (res_json c b) = c"
  "res_status invalid_format = 400" "res_status invalid_authorization = 400"
  "res_status already_used = 400" "res_status missing_text = 400"
  "res_status (settlement_failed m) = 402" "res_status (communication_failed e) = 502"
  "res_status (internal_error e) = 500" "res_status (payment_required env) = 402"
  by (simp_all add: res_json_def invalid_format_def invalid_authorization_def already_used_def
      missing_text_def settlement_failed_def communication_failed_def internal_error_def
      payment_required_def)

lemma settle_status:
  "settle f = Inl failure \<Longrightarrow> res_status failure = 402 \<or> res_status failure = 502"
  by (auto simp: settle_def status_simps split: sum.splits if_splits)

lemma serve_resource_status:
  "res_status (fst (serve_resource env b tx a)) = 400 \<Longrightarrow> fst (serve_resource env b tx a) = missing_text"
  by (auto simp: serve_resource_def Let_def status_simps split: sum.splits if_splits jsval.splits)

lemma not_invalid_format:
  "invalid_authorization \<noteq> invalid_format" "already_used \<noteq> invalid_format"
  "missing_text \<noteq> invalid_format" "internal_error e \<noteq> invalid_format"
  "settlement_failed m \<noteq> invalid_format" "communication_failed e \<noteq> invalid_format"
  by (simp_all add: invalid_format_def invalid_authorization_def already_used_def
      missing_text_def internal_error_def settlement_failed_def communication_failed_def
      res_json_def js_def)

lemma settle_not_invalid_format: "settle f = Inl failure \<Longrightarrow> failure \<noteq> invalid_format"
  by (auto simp: settle_def not_invalid_format split: sum.splits if_splits)



text \<open>
  Claim C5, as amended. The handler makes no expiry check: it reads neither
  \<open>validBefore\<close> nor a clock. Its responses with status 400 are the four of invalid
  format, invalid authorization, payment already used and missing text, none of them
  "expired"; and a request whose header has a signature and an authorization with an
  unused nonce is submitted to the facilitator, whatever its \<open>validBefore\<close>.
\<close>

theorem no_expiry_check:
  "(res_status (fst (snd (post_sentiment env processedPayments req fetched analysed))) = 400 \<longrightarrow>
      fst (snd (post_sentiment env processedPayments req fetched analysed)) \<in>
        {invalid_format, invalid_authorization, already_used, missing_text}) \<and>
   (request_signed req \<longrightarrow> request_nonce req = Some n \<longrightarrow> \<not> set_has processedPayments n \<longrightarrow>
      (\<exists>sa calls. snd (snd (post_sentiment env processedPayments req fetched analysed)) =
          FacilitatorCall (env (js ''FACILITATOR_URL'')) sa # calls))"
proof (intro conjI impI)
  assume st: "res_status (fst (snd (post_sentiment env processedPayments req fetched analysed))) = 400"
  show "fst (snd (post_sentiment env processedPayments req fetched analysed)) \<in>
        {invalid_format, invalid_authorization, already_used, missing_text}"
  proof (cases rule: post_sentiment_cases [of req env processedPayments fetched analysed])
    case challenge
    with st show ?thesis by (simp add: status_simps)
  next
    case (unparsed h e)
    then show ?thesis by simp
  next
    case (thrown h sa e)
    with st show ?thesis by (simp add: status_simps)
  next
    case (unsigned h sa)
    then show ?thesis by simp
  next
    case (replayed h sa)
    then show ?thesis by simp
  next
    case (unsettled h sa failure)
    with st settle_status [of fetched failure] show ?thesis by simp
  next
    case (settled h sa tx n)
    with st serve_resource_status [of env "body req" tx analysed] show ?thesis by simp
  qed
next
  assume "request_signed req" "request_nonce req = Some n" "\<not> set_has processedPayments n"
  with post_sentiment_signed [of req n]
  show "\<exists>sa calls. snd (snd (post_sentiment env processedPayments req fetched analysed)) =
          FacilitatorCall (env (js ''FACILITATOR_URL'')) sa # calls"
    by (cases "settle fetched") auto
qed

text \<open>
  Claim C4, as amended. The handler decodes a non-empty X-PAYMENT header as raw JSON
  only. It answers 400 "Invalid payment format", with the set of processed payments
  unchanged and no external call, exactly when \<open>JSON.parse\<close> of the header throws; no
  base64 decoding is tried.
\<close>

theorem header_is_raw_json:
  assumes "x_payment req = Some h" and "h \<noteq> []"
  shows "(fst (snd (post_sentiment env processedPayments req fetched analysed)) = invalid_format
            \<longleftrightarrow> (\<exists>e. JSON_parse h = Inl e)) \<and>
         ((\<exists>e. JSON_parse h = Inl e) \<longrightarrow>
            post_sentiment env processedPayments req fetched analysed =
              (processedPayments, invalid_format, [])) \<and>
         res_status invalid_format = 400 \<and>
         get_prop (res_body invalid_format) (js ''error'') = Inr (JStr (js ''Invalid payment format''))"
proof -
  have pin: "res_status invalid_format = 400 \<and>
         get_prop (res_body invalid_format) (js ''error'') = Inr (JStr (js ''Invalid payment format''))"
    by (simp add: invalid_format_def res_json_def js_def)
  have "(fst (snd (post_sentiment env processedPayments req fetched analysed)) = invalid_format
            \<longleftrightarrow> (\<exists>e. JSON_parse h = Inl e)) \<and>
         ((\<exists>e. JSON_parse h = Inl e) \<longrightarrow>
            post_sentiment env processedPayments req fetched analysed =
              (processedPayments, invalid_format, []))"
  proof (cases rule: post_sentiment_cases [of req env processedPayments fetched analysed])
  case challenge
  with assms show ?thesis by simp
next
  case (unparsed h' e)
  with assms show ?thesis by simp
next
  case (thrown h' sa e)
  with assms show ?thesis by (simp add: not_invalid_format)
next
  case (unsigned h' sa)
  with assms show ?thesis by (simp add: not_invalid_format)
next
  case (replayed h' sa)
  with assms show ?thesis by (simp add: not_invalid_format)
next
  case (unsettled h' sa failure)
  with assms settle_not_invalid_format [of fetched failure] show ?thesis by simp
next
  case (settled h' sa tx n)
  have "fst (serve_resource env (body req) tx analysed) \<noteq> invalid_format"
  proof
    assume eq: "fst (serve_resource env (body req) tx analysed) = invalid_format"
    then have "res_status (fst (serve_resource env (body req) tx analysed)) = 400"
      by (simp add: status_simps)
    then have "fst (serve_resource env (body req) tx analysed) = missing_text"
      by (rule serve_resource_status)
    with eq show False by (simp add: not_invalid_format)
  qed
  with settled assms show ?thesis by simp
qed
  with pin show ?thesis by simp
qed

text \<open>
  Claim C6, as amended. For a request without an X-PAYMENT header (or with an empty
  one) the handler answers 402 with the JSON body \<open>{ methods: [configured method] }\<close>,
  which has no \<open>x402Version\<close>, content type application/json, and does nothing else:
  the set of processed payments is unchanged and no external call is made.
\<close>

theorem challenge_without_header:
  assumes "x_payment req = None \<or> x_payment req = Some []"
  shows "post_sentiment env processedPayments req fetched analysed =
     (processedPayments,
      \<lparr>res_status = 402, content_type = js ''application/json; charset=utf-8'',
       res_body = JObj [(js ''methods'', JArr [payment_method env])]\<rparr>,
      [])"
  using assms by (auto simp: post_sentiment_def payment_required_def res_json_def)

lemma signs_example:
  "sign_transfer test_sign test_random test_wallet test_now dmn test_method = Inr signed_example"
  by (simp add: sign_transfer_def test_sign_def test_random_def test_now_def test_method_def
      validity_seconds_def hexlify_def hexdigit_def number_toString_def signed_example_def
      test_nonce_def js_def Let_def nat_digits.simps)

lemma paid_request_served:
  "post_sentiment test_env {} paid_request facilitator_settles analysed_positive =
     ({JStr test_nonce}, positive_response, paid_calls)"
proof -
  have h: "x_payment paid_request = Some paid_header" by (simp add: paid_request_def)
  have t: "truthy (opt_prop example_payload (js ''authorization''))"
    by (simp add: example_payload_read example_truthy)
  have sr: "serve_resource test_env (body paid_request) (JStr settled_hash) analysed_positive =
      (positive_response, [ResourceCall (JStr (js ''I love it'')) JUndefined JUndefined])"
    by (simp add: serve_resource_def paid_request_def analysed_positive_def positive_result_def
        positive_response_def opt_prop_def env_val_def test_env_def js_def Let_def)
  show ?thesis
    by (simp add: post_sentiment_with_auth [OF h paid_header_not_empty parse_paid_header
          example_payload_read(1) t] example_payload_read example_truthy set_has_def
        settle_settles sr set_add_def paid_calls_def test_env_def)
qed

lemma paid_request_without_text_served:
  "post_sentiment test_env {} paid_request_without_text facilitator_settles analysed_positive =
     ({JStr test_nonce}, missing_text,
      [FacilitatorCall (Some (js ''https://facilitator.example/settle'')) signed_example_json])"
proof -
  have h: "x_payment paid_request_without_text = Some paid_header"
    by (simp add: paid_request_without_text_def)
  have t: "truthy (opt_prop example_payload (js ''authorization''))"
    by (simp add: example_payload_read example_truthy)
  have sr: "serve_resource test_env (body paid_request_without_text) (JStr settled_hash) analysed_positive =
      (missing_text, [])"
    by (simp add: serve_resource_def paid_request_without_text_def Let_def)
  show ?thesis
    by (simp add: post_sentiment_with_auth [OF h paid_header_not_empty parse_paid_header
          example_payload_read(1) t] example_payload_read example_truthy set_has_def
        settle_settles sr set_add_def test_env_def)
qed








text \<open>Claim C5 as amended, at concrete requests.\<close>

theorem no_expiry_check_witness:
  "request_signed paid_request \<and> request_nonce paid_request = Some (JStr test_nonce) \<and>
   \<not> set_has {} (JStr test_nonce) \<and>
   (\<exists>sa calls. snd (snd (post_sentiment test_env {} paid_request facilitator_settles analysed_positive)) =
      FacilitatorCall (test_env (js ''FACILITATOR_URL'')) sa # calls) \<and>
   res_status (fst (snd (post_sentiment test_env {} paid_request_without_text facilitator_settles
      analysed_positive))) = 400 \<and>
   fst (snd (post_sentiment test_env {} paid_request_without_text facilitator_settles
      analysed_positive)) \<in> {invalid_format, invalid_authorization, already_used, missing_text}"
proof -
  have h: "x_payment paid_request = Some paid_header" by (simp add: paid_request_def)
  have fresh: "\<not> set_has {} (JStr test_nonce)" by (simp add: set_has_def)
  have st: "res_status (fst (snd (post_sentiment test_env {} paid_request_without_text
      facilitator_settles analysed_positive))) = 400"
    by (simp add: paid_request_without_text_served status_simps)
  from no_expiry_check [of test_env "{}" paid_request facilitator_settles analysed_positive
      "JStr test_nonce"]
    no_expiry_check [of test_env "{}" paid_request_without_text facilitator_settles
      analysed_positive "JStr test_nonce"]
    paid_header_carries [OF h] fresh st
  show ?thesis by blast
qed

text \<open>
  Claim C5 as stated fails: the authorization of this request has \<open>validBefore\<close>
  1700000300, which is before a clock reading of 1800000000, and the handler submits it
  to the facilitator and answers 200.
\<close>

theorem expired_authorization_counterexample:
  "request_auth paid_request = Some example_authorization \<and>
   opt_prop example_authorization (js ''validBefore'') = JStr (js ''1700000300'') \<and>
   js_BigInt (js ''1700000300'') = Inr 1700000300 \<and>
   (1700000300 :: int) \<le> 1800000000 \<and>
   post_sentiment test_env {} paid_request facilitator_settles analysed_positive =
     ({JStr test_nonce}, positive_response, paid_calls) \<and>
   res_status positive_response = 200 \<and>
   hd paid_calls =
     FacilitatorCall (Some (js ''https://facilitator.example/settle'')) signed_example_json"
proof -
  have h: "x_payment paid_request = Some paid_header" by (simp add: paid_request_def)
  have b: "js_BigInt (js ''1700000300'') = Inr 1700000300"
    by (simp add: js_BigInt_def js_def trim_def is_str_ws_def digits_in_def digit_val_def)
  show ?thesis
    by (simp add: paid_header_carries [OF h] example_payload_read b paid_request_served
        positive_response_def status_simps paid_calls_def)
qed

lemma base64_header_not_empty: "base64_header \<noteq> []"
  by (simp add: base64_header_def paid_header_def JSON_stringify_def signed_example_def
      quote_def js_def test_signature_def test_wallet_def test_nonce_def
      is_high_surrogate_def is_low_surrogate_def nat_digits.simps b64char_def)

text \<open>Claim C4 as amended, at the request with the base64 header.\<close>

theorem header_is_raw_json_witness:
  "x_payment base64_request = Some base64_header \<and> base64_header \<noteq> [] \<and>
   JSON_parse base64_header = Inl (SyntaxError (js ''Unexpected token in JSON'')) \<and>
   post_sentiment test_env {} base64_request facilitator_settles analysed_positive =
     ({}, invalid_format, [])"
proof -
  have h: "x_payment base64_request = Some base64_header" by (simp add: base64_request_def)
  note ne = base64_header_not_empty
  from header_is_raw_json [OF h ne, of test_env "{}" facilitator_settles analysed_positive]
    h ne parse_base64_header
  show ?thesis by blast
qed

text \<open>
  Claim C4 as stated fails: the header that X402ServerClient creates, the base64
  encoding of a JSON signed authorization, is rejected as invalid format; the same
  authorization as raw JSON is served.
\<close>

theorem base64_header_counterexample:
  "createPaymentAuthorization test_sign test_random test_wallet test_now test_method =
     Inr base64_header \<and>
   base64_header = base64 (utf8_encode paid_header) \<and>
   JSON_parse paid_header = Inr signed_example_json \<and>
   post_sentiment test_env {} base64_request facilitator_settles analysed_positive =
     ({}, invalid_format, []) \<and>
   res_status invalid_format = 400 \<and>
   post_sentiment test_env {} paid_request facilitator_settles analysed_positive =
     ({JStr test_nonce}, positive_response, paid_calls)"
proof -
  have c: "createPaymentAuthorization test_sign test_random test_wallet test_now test_method =
     Inr base64_header"
    by (simp add: createPaymentAuthorization_def createPaymentAuthorization_payload_def
        signs_example base64_header_def paid_header_def)
  note ne = base64_header_not_empty
  have r: "post_sentiment test_env {} base64_request facilitator_settles analysed_positive =
     ({}, invalid_format, [])"
    using ne by (simp add: post_sentiment_def base64_request_def parse_base64_header)
  show ?thesis
    by (simp add: c r parse_paid_header paid_request_served status_simps)
      (simp add: base64_header_def)
qed

text \<open>Claim C6 as amended, at a request without the header.\<close>

theorem challenge_without_header_witness:
  "x_payment unpaid_request = None \<and>
   post_sentiment test_env {} unpaid_request facilitator_settles analysed_positive =
     ({},
      \<lparr>res_status = 402, content_type = js ''application/json; charset=utf-8'',
       res_body =
         JObj [(js ''methods'',
                JArr [JObj [(js ''scheme'', JStr (js ''eip3009'')),
                            (js ''asset'', JStr (js ''0x036CbD53842c5426634e7929541eC2318f3dCF7e'')),
                            (js ''recipient'', JStr (js ''0x501ab28fc3c7d29c2d12b243723eb5c5418b9de6'')),
                            (js ''maximumAmount'', JStr (js ''100000'')),
                            (js ''minimumAmount'', JStr (js ''100000'')),
                            (js ''network'', JStr (js ''base-sepolia'')),
                            (js ''description'',
                               JStr (js ''Sentiment Analysis API - Premium GPT-4 powered analysis'')),
                            (js ''timeout'', JNum (Fin 300000))]])]\<rparr>,
      [])"
proof -
  have h: "x_payment unpaid_request = None" by (simp add: unpaid_request_def)
  then have "x_payment unpaid_request = None \<or> x_payment unpaid_request = Some []" by simp
  from challenge_without_header [OF this, of test_env "{}" facilitator_settles analysed_positive] h
  show ?thesis by (simp add: payment_method_def env_or_def test_env_def js_def)
qed

text \<open>
  Claim C6 as stated fails: the body of the 402 response has no \<open>x402Version\<close>.
\<close>

theorem challenge_version_counterexample:
  "get_prop
     (res_body (fst (snd (post_sentiment test_env {} unpaid_request facilitator_settles
        analysed_positive))))
     (js ''x402Version'') = Inr JUndefined \<and>
   res_body (fst (snd (post_sentiment test_env {} unpaid_request facilitator_settles
      analysed_positive))) \<noteq>
     JObj [(js ''x402Version'', JNum (Fin 1)), (js ''methods'', JArr [payment_method test_env])]"
  by (simp add: post_sentiment_def unpaid_request_def payment_required_def res_json_def js_def)






subsection \<open>The two clients\<close>












end
